theory Spec2Isabelle
  imports Complex_Main "HOL-Library.Multiset"
begin

section \<open>JavaScript values and built-ins used by the server\<close>

text \<open>
  The server is an Express application (the current copy is \<^verbatim>\<open>src/unnamed/part_000\<close>, the one
  the HR page calls on port 3407; \<^verbatim>\<open>src/Backend/server.js\<close> is an earlier copy of the same
  routes). \<^verbatim>\<open>req.body\<close> and \<^verbatim>\<open>req.query\<close> are dictionaries from field names to strings;
  a field that was not sent is \<^verbatim>\<open>undefined\<close>.
\<close>

type_synonym fields = "string \<rightharpoonup> string"

text \<open>JavaScript truthiness of a field: \<^verbatim>\<open>undefined\<close> and the empty string are falsy.\<close>

definition truthy :: "string option \<Rightarrow> bool" where
  "truthy v = (case v of None \<Rightarrow> False | Some s \<Rightarrow> s \<noteq> [])"

subsection \<open>The two regular expressions\<close>

definition is_digit :: "char \<Rightarrow> bool" where
  "is_digit c = (c \<in> set ''0123456789'')"

text \<open>\<^verbatim>\<open>/^ATS0[1-9]\d{2}$/.test(s)\<close>: seven characters, \<^verbatim>\<open>ATS0\<close>, one of 1-9, two digits.\<close>

definition test_empId :: "string \<Rightarrow> bool" where
  "test_empId s =
     (length s = 7 \<and> take 4 s = ''ATS0'' \<and> s ! 4 \<in> set ''123456789''
      \<and> is_digit (s ! 5) \<and> is_digit (s ! 6))"

definition is_local_char :: "char \<Rightarrow> bool" where
  "is_local_char c =
     (c \<in> set ''abcdefghijklmnopqrstuvwxyzABCDEFGHIJKLMNOPQRSTUVWXYZ0123456789._%+-'')"

text \<open>\<^term>\<open>strip_suffix suf s\<close> is what stands before \<open>suf\<close> when \<open>s\<close> ends with \<open>suf\<close>.\<close>

definition strip_suffix :: "string \<Rightarrow> string \<Rightarrow> string option" where
  "strip_suffix suf s =
     (if length suf \<le> length s \<and> drop (length s - length suf) s = suf
      then Some (take (length s - length suf) s) else None)"

text \<open>
  \<^verbatim>\<open>/^[a-zA-Z0-9._%+-]+@(gmail|outlook)\.com$/.test(s)\<close>. The character class does not
  hold \<^verbatim>\<open>@\<close>, so the string is a non-empty run of class characters followed by one of the two
  endings.
\<close>

definition test_empEmail :: "string \<Rightarrow> bool" where
  "test_empEmail s =
     (case strip_suffix ''@gmail.com'' s of
        Some l \<Rightarrow> l \<noteq> [] \<and> list_all is_local_char l
      | None \<Rightarrow>
          (case strip_suffix ''@outlook.com'' s of
             Some l \<Rightarrow> l \<noteq> [] \<and> list_all is_local_char l
           | None \<Rightarrow> False))"

subsection \<open>Numbers and \<^verbatim>\<open>parseFloat\<close>\<close>

text \<open>
  A JavaScript number is a binary64 value: NaN, an infinity, or a finite value, which is a
  rational. (The two zeros are one value here: they compare alike, and an amount of either
  is refused.)
\<close>

datatype number = NaN | Num rat | Infinity bool

definition isNaN :: "number \<Rightarrow> bool" where
  "isNaN v = (case v of NaN \<Rightarrow> True | _ \<Rightarrow> False)"

text \<open>\<^verbatim>\<open>v <= c\<close> and \<^verbatim>\<open>v > c\<close> for a finite constant \<open>c\<close>; both are false on NaN.\<close>

definition num_le :: "number \<Rightarrow> rat \<Rightarrow> bool" where
  "num_le v c = (case v of NaN \<Rightarrow> False | Num x \<Rightarrow> x \<le> c | Infinity pos \<Rightarrow> \<not> pos)"

definition num_gt :: "number \<Rightarrow> rat \<Rightarrow> bool" where
  "num_gt v c = (case v of NaN \<Rightarrow> False | Num x \<Rightarrow> c < x | Infinity pos \<Rightarrow> pos)"

definition negate :: "number \<Rightarrow> number" where
  "negate v = (case v of NaN \<Rightarrow> NaN | Num x \<Rightarrow> Num (- x) | Infinity pos \<Rightarrow> Infinity (\<not> pos))"

text \<open>
  Rounding to binary64. \<open>bit_length n\<close> is the number of binary digits of \<open>n\<close>, and
  \<open>floor_log2 p q\<close> the exponent \<open>k\<close> with \<open>2^k \<le> p/q < 2^(k+1)\<close> for positive \<open>p\<close> and \<open>q\<close>.
\<close>

function bit_length :: "nat \<Rightarrow> nat" where
  "bit_length n = (if n = 0 then 0 else Suc (bit_length (n div 2)))"
  by pat_completeness auto
termination
  by (relation "measure (\<lambda>n. n)") auto

declare bit_length.simps [simp del]

definition pow2 :: "int \<Rightarrow> rat" where
  "pow2 k = (if 0 \<le> k then 2 ^ nat k else 1 / 2 ^ nat (- k))"

definition floor_log2 :: "nat \<Rightarrow> nat \<Rightarrow> int" where
  "floor_log2 p q =
     (let k = int (bit_length p) - int (bit_length q)
      in if (if 0 \<le> k then q * 2 ^ nat k \<le> p else q \<le> p * 2 ^ nat (- k)) then k else k - 1)"

text \<open>The integer nearest to \<open>n/d\<close>, a tie going to the even one.\<close>

definition round_half_even :: "nat \<Rightarrow> nat \<Rightarrow> nat" where
  "round_half_even n d =
     (let f = n div d; r = n mod d
      in if 2 * r < d then f else if d < 2 * r then f + 1
         else if even f then f else f + 1)"

text \<open>
  The binary64 value of the non-negative rational \<open>p/q\<close>: the nearest multiple of the unit
  in the last place, which is \<open>2^(k-52)\<close> for a value of exponent \<open>k\<close> and \<open>2^(-1074)\<close> below
  \<open>2^(-1022)\<close> (the subnormal range, where small values round to 0); a tie goes to the even
  significand; what rounds to \<open>2^1024\<close> or more is infinite.
\<close>

definition binary64 :: "nat \<Rightarrow> nat \<Rightarrow> number" where
  "binary64 p q =
     (if p = 0 then Num 0
      else
        let k = max (floor_log2 p q) (- 1022);
            m = (if 52 \<le> k then round_half_even p (q * 2 ^ nat (k - 52))
                 else round_half_even (p * 2 ^ nat (52 - k)) q);
            v = of_nat m * pow2 (k - 52)
        in if pow2 1024 \<le> v then Infinity True else Num v)"

text \<open>
  Strings are kept as the UTF-8 bytes in which they arrive. \<open>white_space\<close> is the number of
  bytes of the first character when it is one of the white space and line terminator
  characters that \<^verbatim>\<open>parseFloat\<close> skips (TAB, LF, VT, FF, CR, space, U+00A0, U+1680,
  U+2000 to U+200A, U+2028, U+2029, U+202F, U+205F, U+3000, U+FEFF), and 0 otherwise.
\<close>

definition white_space :: "string \<Rightarrow> nat" where
  "white_space s =
     (if take 1 s \<in> set [[CHR 0x09], [CHR 0x0A], [CHR 0x0B], [CHR 0x0C], [CHR 0x0D], [CHR 0x20]]
      then 1
      else if take 2 s = [CHR 0xC2, CHR 0xA0] then 2
      else if take 3 s \<in> set [[CHR 0xE1, CHR 0x9A, CHR 0x80], [CHR 0xE2, CHR 0x80, CHR 0xA8],
                [CHR 0xE2, CHR 0x80, CHR 0xA9], [CHR 0xE2, CHR 0x80, CHR 0xAF],
                [CHR 0xE2, CHR 0x81, CHR 0x9F], [CHR 0xE3, CHR 0x80, CHR 0x80],
                [CHR 0xEF, CHR 0xBB, CHR 0xBF]]
      then 3
      else if take 2 s = [CHR 0xE2, CHR 0x80] \<and> length s \<ge> 3
              \<and> 0x80 \<le> (of_char (s ! 2) :: nat) \<and> (of_char (s ! 2) :: nat) \<le> 0x8A
      then 3
      else 0)"

fun trim_start :: "string \<Rightarrow> string" where
  "trim_start [] = []"
| "trim_start (c # r) =
     (if white_space (c # r) = 0 then c # r
      else trim_start (drop (white_space (c # r) - 1) r))"

definition digit_val :: "char \<Rightarrow> nat" where
  "digit_val c = of_char c - 48"

definition digits_val :: "string \<Rightarrow> nat" where
  "digits_val ds = foldl (\<lambda>n c. 10 * n + digit_val c) 0 ds"

text \<open>The sign in front of a numeral: whether it is negative, and the rest.\<close>

definition read_sign :: "string \<Rightarrow> bool \<times> string" where
  "read_sign s =
     (case s of
        [] \<Rightarrow> (False, s)
      | c # r \<Rightarrow> if c = CHR ''-'' then (True, r) else if c = CHR ''+'' then (False, r)
                 else (False, s))"

text \<open>
  The exponent part \<^verbatim>\<open>e\<close> or \<^verbatim>\<open>E\<close>, an optional sign, at least one digit. An exponent
  with no digit is not part of the longest numeric prefix, so it counts as absent.
\<close>

definition read_exponent :: "string \<Rightarrow> int" where
  "read_exponent s =
     (case s of
        [] \<Rightarrow> 0
      | c # r \<Rightarrow>
          if c = CHR ''e'' \<or> c = CHR ''E'' then
            (let (neg, r') = read_sign r; ds = takeWhile is_digit r'
             in if ds = [] then 0
                else if neg then - int (digits_val ds) else int (digits_val ds))
          else 0)"

text \<open>
  \<^verbatim>\<open>parseFloat(s)\<close>: leading white space is dropped, then the longest prefix that is a
  decimal literal (sign, \<^verbatim>\<open>Infinity\<close> or digits with an optional fraction and exponent) is
  read; what follows is ignored; no such prefix gives NaN. The literal with the digits
  \<open>m\<close>, \<open>f\<close> of them after the point, and the exponent \<open>x\<close> has the value \<open>m * 10^(x - f)\<close>,
  and the result is the binary64 value nearest to it (\<open>decimal64\<close>). (ECMAScript lets an
  engine drop the digits after the twentieth significant one; the engines round the full
  literal, as here.)
\<close>

definition decimal64 :: "nat \<Rightarrow> int \<Rightarrow> number" where
  "decimal64 m x =
     (if 0 \<le> x then binary64 (m * 10 ^ nat x) 1 else binary64 m (10 ^ nat (- x)))"

definition parseFloat :: "string \<Rightarrow> number" where
  "parseFloat input =
     (let (neg, s) = read_sign (trim_start input)
      in if take 8 s = ''Infinity'' then Infinity (\<not> neg)
         else
           let ip = takeWhile is_digit s;
               r1 = dropWhile is_digit s;
               dot = (r1 \<noteq> [] \<and> hd r1 = CHR ''.'');
               fp = (if dot then takeWhile is_digit (tl r1) else []);
               r2 = (if dot then dropWhile is_digit (tl r1) else r1)
           in if ip = [] \<and> fp = [] then NaN
              else
                let v = decimal64 (digits_val (ip @ fp)) (read_exponent r2 - int (length fp))
                in if neg then negate v else v)"

subsection \<open>Number to string\<close>

definition digit_char :: "nat \<Rightarrow> char" where
  "digit_char n = ''0123456789'' ! (n mod 10)"

function digits :: "nat \<Rightarrow> string" where
  "digits n = (if n < 10 then [digit_char n] else digits (n div 10) @ [digit_char n])"
  by pat_completeness auto
termination
  by (relation "measure (\<lambda>n. n)") auto

declare digits.simps [simp del]

text \<open>An integer in a template literal: its decimal digits, with a minus sign when negative.\<close>

definition toString :: "int \<Rightarrow> string" where
  "toString i = (if i < 0 then CHR ''-'' # digits (nat (- i)) else digits (nat i))"

text \<open>\<^verbatim>\<open>a.includes(b)\<close> on strings: \<open>b\<close> occurs in \<open>a\<close>.\<close>

fun includes_str :: "string \<Rightarrow> string \<Rightarrow> bool" where
  "includes_str [] sub = (sub = [])"
| "includes_str (c # cs) sub = (take (length sub) (c # cs) = sub \<or> includes_str cs sub)"

subsection \<open>Dates\<close>

text \<open>
  Day arithmetic as ECMAScript defines it. Months count from 0; \<open>MakeDay\<close> accepts a month
  or a day of the month out of range and carries it over, which is what \<^verbatim>\<open>setMonth\<close> relies on.
\<close>

definition msPerDay :: int where
  "msPerDay = 86400000"

definition InLeapYear :: "int \<Rightarrow> bool" where
  "InLeapYear y = (y mod 4 = 0 \<and> (y mod 100 \<noteq> 0 \<or> y mod 400 = 0))"

definition DayFromYear :: "int \<Rightarrow> int" where
  "DayFromYear y =
     365 * (y - 1970) + (y - 1969) div 4 - (y - 1901) div 100 + (y - 1601) div 400"

definition month_start :: "bool \<Rightarrow> int \<Rightarrow> int" where
  "month_start leap m =
     [0, 31, 59, 90, 120, 151, 181, 212, 243, 273, 304, 334] ! nat m
     + (if leap \<and> 2 \<le> m then 1 else 0)"

definition DaysInMonth :: "int \<Rightarrow> int \<Rightarrow> int" where
  "DaysInMonth y m =
     (if m = 1 then (if InLeapYear y then 29 else 28)
      else if m \<in> set [3, 5, 8, 10] then 30 else 31)"

definition MakeDay :: "int \<Rightarrow> int \<Rightarrow> int \<Rightarrow> int" where
  "MakeDay y m dt =
     (let ym = y + m div 12; mn = m mod 12
      in DayFromYear ym + month_start (InLeapYear ym) mn + dt - 1)"

definition MakeDate :: "int \<Rightarrow> int \<Rightarrow> int" where
  "MakeDate dy tm = dy * msPerDay + tm"

text \<open>
  A reading of the clock, as the fields of the server's local time. A Date object is kept
  by these fields; its time value (milliseconds since the epoch, UTC) is computed by
  \<open>valueOf\<close> below, which carries out-of-range fields over as \<open>MakeDay\<close> does.
\<close>

record local_time =
  full_year :: int
  month :: int
  day_of_month :: int
  ms_in_day :: int

definition valid_local_time :: "local_time \<Rightarrow> bool" where
  "valid_local_time t =
     (0 \<le> month t \<and> month t \<le> 11
      \<and> 1 \<le> day_of_month t \<and> day_of_month t \<le> DaysInMonth (full_year t) (month t)
      \<and> 0 \<le> ms_in_day t \<and> ms_in_day t < msPerDay)"

definition getFullYear :: "local_time \<Rightarrow> int" where
  "getFullYear t = full_year t"

definition getMonth :: "local_time \<Rightarrow> int" where
  "getMonth t = month t"

text \<open>
  \<^verbatim>\<open>d.setMonth(m)\<close> keeps the year, the day of the month and the time of day and replaces
  the month; the new time value is \<open>MakeDate (MakeDay year m day) time\<close>, so a day the new
  month does not have runs over into the next month.
\<close>

definition setMonth :: "local_time \<Rightarrow> int \<Rightarrow> local_time" where
  "setMonth t m = t\<lparr>month := m\<rparr>"

text \<open>
  The time value of a Date object. \<open>tz l\<close> is the offset of the server's time zone, in
  milliseconds east of UTC, that is in force at the local time \<open>l\<close> (milliseconds on the
  local calendar); with daylight saving time it may differ between the dates compared.
\<close>

definition valueOf :: "(int \<Rightarrow> int) \<Rightarrow> local_time \<Rightarrow> int" where
  "valueOf tz t =
     (let l = MakeDate (MakeDay (full_year t) (month t) (day_of_month t)) (ms_in_day t)
      in l - tz l)"

text \<open>
  The date-only form \<^verbatim>\<open>YYYY-MM-DD\<close> of a day that exists (what a date input submits),
  which ECMAScript has every engine read as midnight UTC of that day. \<open>None\<close> says that the
  string is not of this form, not that the engine does not read it: what
  \<^verbatim>\<open>new Date(s)\<close> makes of a string is a matter of the engine (\<open>Date_parse\<close> of the
  environment below).
\<close>

definition date_only :: "string \<Rightarrow> int option" where
  "date_only s =
     (if length s = 10 \<and> list_all is_digit (take 4 s) \<and> s ! 4 = CHR ''-''
         \<and> list_all is_digit (take 2 (drop 5 s)) \<and> s ! 7 = CHR ''-''
         \<and> list_all is_digit (drop 8 s)
      then
        (let y = int (digits_val (take 4 s));
             m = int (digits_val (take 2 (drop 5 s)));
             d = int (digits_val (drop 8 s))
         in if 1 \<le> m \<and> m \<le> 12 \<and> 1 \<le> d \<and> d \<le> DaysInMonth y (m - 1)
            then Some (MakeDate (MakeDay y (m - 1) d) 0) else None)
      else None)"

text \<open>Comparison of two Date objects by time value; with an Invalid Date both are false.\<close>

definition date_gt :: "int option \<Rightarrow> int \<Rightarrow> bool" where
  "date_gt a b = (case a of None \<Rightarrow> False | Some x \<Rightarrow> b < x)"

definition date_lt :: "int option \<Rightarrow> int \<Rightarrow> bool" where
  "date_lt a b = (case a of None \<Rightarrow> False | Some x \<Rightarrow> x < b)"

section \<open>The store and the file store\<close>

text \<open>
  The two tables of \<^verbatim>\<open>initializeDatabase\<close> (and \<^verbatim>\<open>src/sql.sql\<close>), each a list of rows in
  storage order. \<open>amount\<close> holds the parsed number and \<open>claim_date\<close> the submitted text;
  timestamps are time values.
\<close>

record claim_row =
  claim_id :: string
  employee_name :: string
  employee_email :: string
  employee_id :: string
  department :: string
  claim_date :: string
  amount :: number
  description :: string
  type :: string
  status :: string
  created_at :: int
  updated_at :: int

record document_row =
  doc_id :: int
  doc_claim_id :: string
  file_name :: string
  file_path :: string
  uploaded_at :: int

record database =
  claims :: "claim_row list"
  documents :: "document_row list"
  documents_id_seq :: int

text \<open>The upload directory: the paths that exist, with their bytes.\<close>

type_synonym disk = "string \<rightharpoonup> string"

record state =
  db :: database
  uploads :: disk

text \<open>
  What a request takes from outside the program: the successive readings of the clock
  (\<open>clock e k\<close> is the \<open>k\<close>-th \<^verbatim>\<open>new Date()\<close> whose value the handler uses); the time zone
  (\<open>tz_offset e l\<close> is the offset the engine applies at the local time \<open>l\<close>: for a reading
  of the clock the offset at that moment, for a date set by \<^verbatim>\<open>setMonth\<close> the offset in force
  at that date); the engine's reading of a
  date string (\<open>Date_parse e s\<close> is the time value of \<^verbatim>\<open>new Date(s)\<close>, \<open>None\<close> for an
  Invalid Date); the value \<^verbatim>\<open>Math.random()\<close> returns; the store's conversion of a text
  parameter to its integer type (\<open>int4in e s\<close>, \<open>None\<close> when the store refuses the text);
  and the failures of the collaborators: \<open>db_fault e k\<close> is the error message with which
  the store rejects the \<open>k\<close>-th statement of the request for a reason outside the model (a
  lost connection, a value a column type refuses), and \<open>unlink_fault e p\<close> says that
  removing the path \<open>p\<close> throws.
\<close>

record env =
  clock :: "nat \<Rightarrow> local_time"
  tz_offset :: "int \<Rightarrow> int"
  Date_parse :: "string \<Rightarrow> int option"
  Math_random :: rat
  int4in :: "string \<Rightarrow> int option"
  db_fault :: "nat \<Rightarrow> string option"
  unlink_fault :: "string \<Rightarrow> bool"

subsection \<open>Statements\<close>

text \<open>
  \<^verbatim>\<open>pool.query\<close> either resolves with a result or rejects with an error; \<open>Inl msg\<close> is the
  rejection. The primary key of \<open>claims\<close> and the foreign key of \<open>documents\<close> are checked by
  the store. Document ids come from the sequence of the \<^verbatim>\<open>SERIAL\<close> column, which an
  insert that goes through advances.
\<close>

definition insert_claim :: "string option \<Rightarrow> claim_row \<Rightarrow> database \<Rightarrow> string + database" where
  "insert_claim fault row d =
     (case fault of
        Some msg \<Rightarrow> Inl msg
      | None \<Rightarrow>
          if claim_id row \<in> set (map claim_id (claims d))
          then Inl ''duplicate key value violates unique constraint claims_pkey''
          else Inr (d\<lparr>claims := claims d @ [row]\<rparr>))"

definition insert_document ::
  "string option \<Rightarrow> string \<Rightarrow> string \<Rightarrow> string \<Rightarrow> int \<Rightarrow> database \<Rightarrow> string + database" where
  "insert_document fault cid fname fpath t d =
     (case fault of
        Some msg \<Rightarrow> Inl msg
      | None \<Rightarrow>
          if cid \<in> set (map claim_id (claims d))
          then Inr (d\<lparr>documents := documents d @
                     [\<lparr>doc_id = documents_id_seq d, doc_claim_id = cid, file_name = fname,
                       file_path = fpath, uploaded_at = t\<rparr>],
                     documents_id_seq := documents_id_seq d + 1\<rparr>)
          else Inl ''insert or update on table documents violates foreign key constraint'')"

text \<open>
  The \<^verbatim>\<open>WHERE\<close> clause the list handler builds: \<^verbatim>\<open>1=1\<close> and one \<^verbatim>\<open>AND column = $n\<close> for
  each filter pushed, with the value bound to \<^verbatim>\<open>$n\<close>.
\<close>

datatype column = Employee_id | Claim_id | Status

fun column_of :: "column \<Rightarrow> claim_row \<Rightarrow> string" where
  "column_of Employee_id r = employee_id r"
| "column_of Claim_id r = claim_id r"
| "column_of Status r = status r"

definition holds :: "(column \<times> string) list \<Rightarrow> claim_row \<Rightarrow> bool" where
  "holds conds r = list_all (\<lambda>(c, v). column_of c r = v) conds"

text \<open>
  \<^verbatim>\<open>SELECT * FROM claims WHERE ... ORDER BY created_at DESC\<close>. Rows with equal
  \<open>created_at\<close> come in storage order here; the store promises no order among them.
\<close>

definition select_claims ::
  "string option \<Rightarrow> (column \<times> string) list \<Rightarrow> database \<Rightarrow> string + claim_row list" where
  "select_claims fault conds d =
     (case fault of
        Some msg \<Rightarrow> Inl msg
      | None \<Rightarrow> Inr (sort_key (\<lambda>r. - created_at r) (filter (holds conds) (claims d))))"

text \<open>\<^verbatim>\<open>SELECT id, file_name, file_path FROM documents WHERE claim_id = $1\<close>.\<close>

definition select_documents ::
  "string option \<Rightarrow> string \<Rightarrow> database \<Rightarrow> string + (int \<times> string \<times> string) list" where
  "select_documents fault cid d =
     (case fault of
        Some msg \<Rightarrow> Inl msg
      | None \<Rightarrow>
          Inr (map (\<lambda>r. (doc_id r, file_name r, file_path r))
                 (filter (\<lambda>r. doc_claim_id r = cid) (documents d))))"

text \<open>
  \<^verbatim>\<open>SELECT file_path FROM documents WHERE id = $1\<close>. The parameter is the text of the
  route parameter and the column is an integer: the store converts the text (\<open>conv\<close>), and
  rejects the statement when it does not read it as an integer of the column's range.
\<close>

definition select_file_path ::
  "string option \<Rightarrow> (string \<Rightarrow> int option) \<Rightarrow> string \<Rightarrow> database \<Rightarrow> string + string list" where
  "select_file_path fault conv documentId d =
     (case fault of
        Some msg \<Rightarrow> Inl msg
      | None \<Rightarrow>
          (case conv documentId of
             None \<Rightarrow> Inl ''invalid input syntax for type integer''
           | Some n \<Rightarrow> Inr (map file_path (filter (\<lambda>r. doc_id r = n) (documents d)))))"

text \<open>
  The conversion as the store's \<^verbatim>\<open>pg_strtoint32\<close> does it up to version 15: white space,
  an optional sign, at least one digit, white space, and nothing else; a value outside
  the 32-bit range is refused. (From version 16 the store also reads hexadecimal, octal
  and binary numerals and underscores between digits.) The example requests run on it.
\<close>

definition is_space :: "char \<Rightarrow> bool" where
  "is_space c = (c \<in> set [CHR '' '', CHR 0x09, CHR 0x0A, CHR 0x0B, CHR 0x0C, CHR 0x0D])"

definition pg_strtoint32 :: "string \<Rightarrow> int option" where
  "pg_strtoint32 s =
     (let (neg, r) = read_sign (dropWhile is_space s);
          ds = takeWhile is_digit r;
          v = (if neg then - int (digits_val ds) else int (digits_val ds))
      in if ds \<noteq> [] \<and> dropWhile is_space (dropWhile is_digit r) = []
            \<and> - 2147483648 \<le> v \<and> v \<le> 2147483647
         then Some v else None)"

text \<open>
  \<^verbatim>\<open>UPDATE claims SET status = $1, updated_at = $2 WHERE claim_id = $3 RETURNING *\<close>: the
  new table and the rows updated.
\<close>

definition update_status ::
  "string option \<Rightarrow> string \<Rightarrow> int \<Rightarrow> string \<Rightarrow> database
     \<Rightarrow> string + (claim_row list \<times> database)" where
  "update_status fault st t cid d =
     (case fault of
        Some msg \<Rightarrow> Inl msg
      | None \<Rightarrow>
          Inr (map (\<lambda>r. r\<lparr>status := st, updated_at := t\<rparr>)
                 (filter (\<lambda>r. claim_id r = cid) (claims d)),
               d\<lparr>claims := map (\<lambda>r. if claim_id r = cid
                                      then r\<lparr>status := st, updated_at := t\<rparr> else r)
                              (claims d)\<rparr>))"

subsection \<open>File system calls\<close>

definition existsSync :: "disk \<Rightarrow> string \<Rightarrow> bool" where
  "existsSync fs p = (fs p \<noteq> None)"

text \<open>\<^verbatim>\<open>fs.unlinkSync(p)\<close>: \<open>None\<close> when it throws, else the directory without \<open>p\<close>.\<close>

definition unlinkSync :: "env \<Rightarrow> disk \<Rightarrow> string \<Rightarrow> disk option" where
  "unlinkSync e fs p = (if unlink_fault e p then None else Some (fs(p := None)))"

section \<open>Requests and responses\<close>

text \<open>
  An uploaded file as the upload middleware describes it in \<^verbatim>\<open>req.files\<close>: \<open>path\<close> is the
  place the disk storage gives it in the upload directory.
\<close>

record uploaded_file =
  fieldname :: string
  originalname :: string
  mimetype :: string
  file_size :: nat
  path :: string
  content :: string

text \<open>
  The responses the routes send: \<^verbatim>\<open>res.status(n).json({error: msg})\<close>, the 201 answer of a
  submission (claim id and, for each file, original name and stored path), the list of
  claims with their documents, one claim row, and \<^verbatim>\<open>res.sendFile\<close>; and the two answers
  of the earlier copy that differ, the 201 with the claim id alone and the list of bare rows.
\<close>

datatype response =
    Json_error nat string
  | Json_created string "(string \<times> string) list"
  | Json_submitted string
  | Json_claims "(claim_row \<times> (int \<times> string \<times> string) list) list"
  | Json_rows "claim_row list"
  | Json_claim claim_row
  | Send_file string string


section \<open>The upload middleware and the error handler\<close>

datatype error = Error string | MulterError string string

fun message :: "error \<Rightarrow> string" where
  "message (Error msg) = msg"
| "message (MulterError c msg) = msg"

fun code :: "error \<Rightarrow> string option" where
  "code (Error msg) = None"
| "code (MulterError c msg) = Some c"

fun is_MulterError :: "error \<Rightarrow> bool" where
  "is_MulterError (Error msg) = False"
| "is_MulterError (MulterError c msg) = True"

definition allowedTypes :: "string list" where
  "allowedTypes = [''application/pdf'', ''image/jpeg'', ''image/png'']"

text \<open>The \<^verbatim>\<open>fileFilter\<close> of the multer configuration: the error it passes on, if any.\<close>

definition fileFilter :: "uploaded_file \<Rightarrow> error option" where
  "fileFilter f =
     (if mimetype f \<in> set allowedTypes then None
      else Some (Error ''Only PDF, JPG, and PNG files are allowed''))"

definition remove_paths :: "string list \<Rightarrow> disk \<Rightarrow> disk" where
  "remove_paths ps fs = foldr (\<lambda>p m. m(p := None)) ps fs"

text \<open>
  \<^verbatim>\<open>upload.array('documents', 5)\<close> with the configured \<^verbatim>\<open>fileFilter\<close> and
  \<^verbatim>\<open>limits.fileSize\<close>, as the multer library documents it: the file parts are taken in
  order; a part under another field name, or one more than the count allows, is refused with
  \<^verbatim>\<open>LIMIT_UNEXPECTED_FILE\<close>; then the filter is asked; then the file is written, and one
  larger than the limit is refused with \<^verbatim>\<open>LIMIT_FILE_SIZE\<close>. On an error the files already
  written for the request are removed and the error goes to the error handler. \<open>left\<close> is
  how many files the field may still take, \<open>stored\<close> the paths written so far.
\<close>

fun upload_array :: "nat \<Rightarrow> string list \<Rightarrow> uploaded_file list \<Rightarrow> disk \<Rightarrow> (error \<times> disk) + disk" where
  "upload_array left stored [] fs = Inr fs"
| "upload_array left stored (f # rest) fs =
     (if fieldname f \<noteq> ''documents'' \<or> left = 0
      then Inl (MulterError ''LIMIT_UNEXPECTED_FILE'' ''Unexpected field'', remove_paths stored fs)
      else
        (case fileFilter f of
           Some err \<Rightarrow> Inl (err, remove_paths stored fs)
         | None \<Rightarrow>
             if 5 * 1024 * 1024 < file_size f
             then Inl (MulterError ''LIMIT_FILE_SIZE'' ''File too large'',
                       remove_paths (path f # stored) fs)
             else upload_array (left - 1) (path f # stored) rest (fs(path f \<mapsto> content f))))"

text \<open>The last \<^verbatim>\<open>app.use((err, req, res, next) => ...)\<close> of \<^verbatim>\<open>part_000\<close>.\<close>

definition error_handler :: "error \<Rightarrow> response" where
  "error_handler err =
     (if includes_str (message err) ''Only PDF, JPG, and PNG files are allowed''
      then Json_error 400 (message err)
      else if code err = Some ''LIMIT_FILE_SIZE''
      then Json_error 400 ''File size exceeds 5MB limit''
      else if is_MulterError err then Json_error 400 (message err)
      else Json_error 500 ''Internal server error'')"

section \<open>POST /api/claims\<close>

text \<open>The rupee sign of the amount message, as its three UTF-8 bytes.\<close>

definition rupee :: string where
  "rupee = [CHR 0xE2, CHR 0x82, CHR 0xB9]"

text \<open>
  The checks of the handler in their order, each with the message of its 400 answer;
  \<open>None\<close> when all pass. The clock is read twice: \<open>today\<close> and \<open>threeMonthsAgo\<close>.
\<close>

definition validation_error :: "env \<Rightarrow> fields \<Rightarrow> uploaded_file list option \<Rightarrow> string option" where
  "validation_error e body req_files =
     (let empName = body ''empName''; empEmail = body ''empEmail''; empId = body ''empId'';
          dept = body ''department''; claimDate = body ''claimDate'';
          amt = body ''amount''; descr = body ''description''; ty = body ''type''
      in if \<not> truthy empName \<or> \<not> truthy empEmail \<or> \<not> truthy empId \<or> \<not> truthy dept
            \<or> \<not> truthy claimDate \<or> \<not> truthy amt \<or> \<not> truthy descr \<or> \<not> truthy ty
         then Some ''All fields are required''
         else if \<not> test_empId (the empId)
         then Some ''Employee ID must be ATS0 followed by 3 digits (e.g., ATS0123)''
         else if \<not> test_empEmail (the empEmail)
         then Some ''Email must be a valid @gmail.com or @outlook.com address''
         else
           let amountValue = parseFloat (the amt)
           in if isNaN amountValue \<or> num_le amountValue 0 \<or> num_gt amountValue 50000
              then Some (''Amount must be between '' @ rupee @ ''0.01 and '' @ rupee @ ''50,000'')
              else
                let claimDateObj = Date_parse e (the claimDate);
                    today = clock e 0;
                    threeMonthsAgo = setMonth (clock e 1) (getMonth today - 3)
                in if date_gt claimDateObj (valueOf (tz_offset e) today)
                      \<or> date_lt claimDateObj (valueOf (tz_offset e) threeMonthsAgo)
                   then Some ''Claim date must be within the last 3 months and not in the future''
                   else if req_files = None \<or> length (the req_files) = 0
                   then Some ''At least one document is required''
                   else None)"

text \<open>
  \<^verbatim>\<open>`CLM-${new Date().getFullYear()}-${Math.floor(1000 + Math.random() * 9000)}`\<close>
  (third reading of the clock). The product and the sum are taken exactly.
\<close>

definition new_claimId :: "env \<Rightarrow> string" where
  "new_claimId e =
     ''CLM-'' @ toString (getFullYear (clock e 2)) @ ''-''
       @ toString \<lfloor>1000 + Math_random e * 9000\<rfloor>"

text \<open>The values of the \<^verbatim>\<open>INSERT INTO claims\<close> (fourth and fifth reading of the clock).\<close>

definition new_claim_row :: "env \<Rightarrow> fields \<Rightarrow> string \<Rightarrow> claim_row" where
  "new_claim_row e body claimId =
     \<lparr>claim_id = claimId,
      employee_name = the (body ''empName''),
      employee_email = the (body ''empEmail''),
      employee_id = the (body ''empId''),
      department = the (body ''department''),
      claim_date = the (body ''claimDate''),
      amount = parseFloat (the (body ''amount'')),
      description = the (body ''description''),
      type = the (body ''type''),
      status = ''pending'',
      created_at = valueOf (tz_offset e) (clock e 3),
      updated_at = valueOf (tz_offset e) (clock e 4)\<rparr>"

text \<open>
  The loop over \<^verbatim>\<open>req.files\<close>: a file that is not on disk is skipped, the others get a
  document row each. \<open>k\<close> counts the inserts made so far. The result is the error of the
  insert that was rejected, if any, and the table as the loop left it.
\<close>

fun insert_files ::
  "env \<Rightarrow> disk \<Rightarrow> string \<Rightarrow> nat \<Rightarrow> uploaded_file list \<Rightarrow> database \<Rightarrow> string option \<times> database" where
  "insert_files e fs claimId k [] d = (None, d)"
| "insert_files e fs claimId k (f # rest) d =
     (if \<not> existsSync fs (path f) then insert_files e fs claimId k rest d
      else
        (case insert_document (db_fault e (Suc k)) claimId (originalname f) (path f)
                (valueOf (tz_offset e) (clock e (5 + k))) d of
           Inl err \<Rightarrow> (Some err, d)
         | Inr d' \<Rightarrow> insert_files e fs claimId (Suc k) rest d'))"

text \<open>
  The \<^verbatim>\<open>catch\<close> block: every file of the request that is still on disk is removed (a
  removal that throws is logged and passed over), and the answer is a fixed 500; the
  error caught is only logged.
\<close>

fun cleanup :: "env \<Rightarrow> uploaded_file list \<Rightarrow> disk \<Rightarrow> disk" where
  "cleanup e [] fs = fs"
| "cleanup e (f # rest) fs =
     cleanup e rest
       (if existsSync fs (path f)
        then (case unlinkSync e fs (path f) of Some fs' \<Rightarrow> fs' | None \<Rightarrow> fs)
        else fs)"

definition post_claims_catch ::
  "env \<Rightarrow> string \<Rightarrow> uploaded_file list option \<Rightarrow> state \<Rightarrow> response \<times> state" where
  "post_claims_catch e err req_files st =
     (Json_error 500 ''Server error while submitting claim'',
      st\<lparr>uploads :=
           (case req_files of
              None \<Rightarrow> uploads st
            | Some fl \<Rightarrow> if 0 < length fl then cleanup e fl (uploads st) else uploads st)\<rparr>)"

definition post_claims :: "env \<Rightarrow> state \<Rightarrow> fields \<Rightarrow> uploaded_file list option \<Rightarrow> response \<times> state" where
  "post_claims e st body req_files =
     (case validation_error e body req_files of
        Some msg \<Rightarrow> (Json_error 400 msg, st)
      | None \<Rightarrow>
          (let claimId = new_claimId e
           in case insert_claim (db_fault e 0) (new_claim_row e body claimId) (db st) of
                Inl err \<Rightarrow> post_claims_catch e err req_files st
              | Inr d1 \<Rightarrow>
                  (case insert_files e (uploads st) claimId 0 (the req_files) d1 of
                     (Some err, d2) \<Rightarrow> post_claims_catch e err req_files (st\<lparr>db := d2\<rparr>)
                   | (None, d2) \<Rightarrow>
                       (Json_created claimId
                          (map (\<lambda>f. (originalname f, path f)) (the req_files)),
                        st\<lparr>db := d2\<rparr>))))"

text \<open>
  The route: the upload middleware first; its error goes to the error handler and the
  handler does not run.
\<close>

definition POST_api_claims :: "env \<Rightarrow> state \<Rightarrow> fields \<Rightarrow> uploaded_file list \<Rightarrow> response \<times> state" where
  "POST_api_claims e st body parts =
     (case upload_array 5 [] parts (uploads st) of
        Inl (err, fs) \<Rightarrow> (error_handler err, st\<lparr>uploads := fs\<rparr>)
      | Inr fs \<Rightarrow> post_claims e (st\<lparr>uploads := fs\<rparr>) body (Some parts))"

section \<open>GET /api/claims\<close>

text \<open>The documents of each claim listed, one query per claim (statements 1, 2, ...).\<close>

fun with_documents ::
  "env \<Rightarrow> nat \<Rightarrow> database \<Rightarrow> claim_row list
     \<Rightarrow> string + (claim_row \<times> (int \<times> string \<times> string) list) list" where
  "with_documents e k d [] = Inr []"
| "with_documents e k d (c # cs) =
     (case select_documents (db_fault e k) (claim_id c) d of
        Inl err \<Rightarrow> Inl err
      | Inr docs \<Rightarrow>
          (case with_documents e (Suc k) d cs of
             Inl err \<Rightarrow> Inl err
           | Inr rest \<Rightarrow> Inr ((c, docs) # rest)))"

text \<open>The \<^verbatim>\<open>values\<close> pushed and the conditions appended for the filters that are truthy.\<close>

definition where_clause :: "fields \<Rightarrow> (column \<times> string) list" where
  "where_clause query =
     (if truthy (query ''employee_id'') then [(Employee_id, the (query ''employee_id''))] else [])
     @ (if truthy (query ''claim_id'') then [(Claim_id, the (query ''claim_id''))] else [])
     @ (if truthy (query ''status'') then [(Status, the (query ''status''))] else [])"

definition get_claims :: "env \<Rightarrow> state \<Rightarrow> fields \<Rightarrow> response \<times> state" where
  "get_claims e st query =
     (if truthy (query ''employee_id'') \<and> \<not> test_empId (the (query ''employee_id''))
      then (Json_error 400 ''Employee ID must be ATS0 followed by 3 digits'', st)
      else
        (case select_claims (db_fault e 0) (where_clause query) (db st) of
           Inl err \<Rightarrow> (Json_error 500 ''Server error while fetching claims'', st)
         | Inr rows \<Rightarrow>
             (case with_documents e 1 (db st) rows of
                Inl err \<Rightarrow> (Json_error 500 ''Server error while fetching claims'', st)
              | Inr cs \<Rightarrow> (Json_claims cs, st))))"

section \<open>GET /api/documents/:documentId\<close>

text \<open>
  \<^verbatim>\<open>result.rows[0].file_path\<close> is read after the check that a row came back, and the bytes
  sent are those of a path that exists. (The paths in the table are the absolute paths the
  disk storage gave, which \<^verbatim>\<open>res.sendFile\<close> accepts.)
\<close>

definition get_document :: "env \<Rightarrow> state \<Rightarrow> string \<Rightarrow> response \<times> state" where
  "get_document e st documentId =
     (case select_file_path (db_fault e 0) (int4in e) documentId (db st) of
        Inl err \<Rightarrow> (Json_error 500 ''Server error while fetching document'', st)
      | Inr rows \<Rightarrow>
          if length rows = 0 then (Json_error 404 ''Document not found'', st)
          else
            (let filePath = hd rows
             in if \<not> existsSync (uploads st) filePath
                then (Json_error 404 ''File not found on server'', st)
                else (Send_file filePath (the (uploads st filePath)), st)))"

section \<open>PATCH /api/claims/:claimId\<close>

text \<open>
  \<open>new_status\<close> is the \<open>status\<close> of the JSON body when it is a string, \<open>None\<close> otherwise;
  only the two strings pass \<^verbatim>\<open>['approved', 'rejected'].includes(status)\<close>.
\<close>

definition patch_claim :: "env \<Rightarrow> state \<Rightarrow> string \<Rightarrow> string option \<Rightarrow> response \<times> state" where
  "patch_claim e st claimId new_status =
     (if new_status \<noteq> Some ''approved'' \<and> new_status \<noteq> Some ''rejected''
      then (Json_error 400 ''Status must be approved or rejected'', st)
      else
        (case update_status (db_fault e 0) (the new_status)
                (valueOf (tz_offset e) (clock e 0)) claimId (db st) of
           Inl err \<Rightarrow> (Json_error 500 ''Server error while updating claim'', st)
         | Inr (rows, d') \<Rightarrow>
             if length rows = 0 then (Json_error 404 ''Claim not found'', st\<lparr>db := d'\<rparr>)
             else (Json_claim (hd rows), st\<lparr>db := d'\<rparr>)))"

section \<open>An example request\<close>

text \<open>
  A submission on 15 June 2023, 14:00 UTC, with one PDF, on an empty store; the properties
  below are instantiated on it. The server runs in UTC; of the engine's reading of date
  strings only that of the date-only form is used, and of the store's conversion only that
  of decimal numerals.
\<close>

definition example_time :: local_time where
  "example_time = \<lparr>full_year = 2023, month = 5, day_of_month = 15, ms_in_day = 50400000\<rparr>"

definition example_env :: env where
  "example_env = \<lparr>clock = (\<lambda>k. example_time), tz_offset = (\<lambda>l. 0), Date_parse = date_only,
      Math_random = 1 / 2, int4in = pg_strtoint32, db_fault = (\<lambda>k. None),
      unlink_fault = (\<lambda>p. False)\<rparr>"

definition example_body :: fields where
  "example_body = [''empName'' \<mapsto> ''Asha'', ''empEmail'' \<mapsto> ''a@gmail.com'',
     ''empId'' \<mapsto> ''ATS0123'', ''department'' \<mapsto> ''IT'', ''claimDate'' \<mapsto> ''2023-06-15'',
     ''amount'' \<mapsto> ''1500.50'', ''description'' \<mapsto> ''taxi'', ''type'' \<mapsto> ''travel'']"

definition example_file :: uploaded_file where
  "example_file = \<lparr>fieldname = ''documents'', originalname = ''receipt.pdf'',
     mimetype = ''application/pdf'', file_size = 1024,
     path = ''/srv/Uploads/documents-1686837600000-42.pdf'', content = ''%PDF''\<rparr>"

definition empty_state :: state where
  "empty_state = \<lparr>db = \<lparr>claims = [], documents = [], documents_id_seq = 1\<rparr>, uploads = Map.empty\<rparr>"

text \<open>The state after the example submission: one claim, \<^verbatim>\<open>CLM-2023-5500\<close>, with one document.\<close>

definition submitted_state :: state where
  "submitted_state = snd (POST_api_claims example_env empty_state example_body [example_file])"

section \<open>Words of the specification\<close>

text \<open>The fields a submission must carry.\<close>

definition required_fields :: "string list" where
  "required_fields =
     [''empName'', ''empEmail'', ''empId'', ''department'', ''claimDate'', ''amount'',
      ''description'', ''type'']"

text \<open>
  An amount from which \<^verbatim>\<open>parseFloat\<close> reads a number (a binary64 value) in the interval
  \<open>(0, 50000]\<close>.
\<close>

definition amount_in_range :: "string \<Rightarrow> bool" where
  "amount_in_range a = (case parseFloat a of Num x \<Rightarrow> 0 < x \<and> x \<le> 50000 | _ \<Rightarrow> False)"

text \<open>A later request: the clock one minute on.\<close>

definition later_env :: env where
  "later_env = example_env\<lparr>clock := (\<lambda>k. example_time\<lparr>ms_in_day := 50460000\<rparr>)\<rparr>"

text \<open>
  A filter lets a value pass when it was not given (or is empty) or equals the value; a
  claim matches the filters of a listing when each of the three lets its column pass.
\<close>

definition passes :: "string option \<Rightarrow> string \<Rightarrow> bool" where
  "passes flt v = (case flt of None \<Rightarrow> True | Some w \<Rightarrow> w = [] \<or> w = v)"

definition matches_filters :: "fields \<Rightarrow> claim_row \<Rightarrow> bool" where
  "matches_filters query r =
     (passes (query ''employee_id'') (employee_id r)
      \<and> passes (query ''claim_id'') (claim_id r)
      \<and> passes (query ''status'') (status r))"

text \<open>The documents of a claim as the listing embeds them: id, file name, file path.\<close>

definition documents_of :: "database \<Rightarrow> claim_row \<Rightarrow> (int \<times> string \<times> string) list" where
  "documents_of d c =
     map (\<lambda>r. (doc_id r, file_name r, file_path r))
       (filter (\<lambda>r. doc_claim_id r = claim_id c) (documents d))"

text \<open>
  A request during which the store rejects the second statement (the first document
  insert), and the state in which the upload middleware has stored the example file.
\<close>

definition failing_env :: env where
  "failing_env =
     example_env\<lparr>db_fault := (\<lambda>k. if k = 1 then Some ''Connection terminated unexpectedly''
                                   else None)\<rparr>"

definition uploaded_state :: state where
  "uploaded_state = empty_state\<lparr>uploads := [path example_file \<mapsto> content example_file]\<rparr>"

text \<open>The form \<^verbatim>\<open>CLM-<4-digit-year>-<4 digits>\<close> of a claim id.\<close>

definition is_claim_id :: "string \<Rightarrow> bool" where
  "is_claim_id s =
     (length s = 13 \<and> take 4 s = ''CLM-'' \<and> list_all is_digit (take 4 (drop 4 s))
      \<and> s ! 8 = CHR ''-'' \<and> list_all is_digit (drop 9 s))"

text \<open>
  The foreign key of \<open>documents\<close>, which the store maintains: every document row names a
  claim of the \<open>claims\<close> table.
\<close>

definition foreign_key_ok :: "database \<Rightarrow> bool" where
  "foreign_key_ok d =
     list_all (\<lambda>r. doc_claim_id r \<in> set (map claim_id (claims d))) (documents d)"

text \<open>
  The calendar date three months before a date: the same day of the month, or the last day
  of that month when it is shorter.
\<close>

definition three_months_before :: "local_time \<Rightarrow> local_time" where
  "three_months_before t =
     (let y = (if month t < 3 then full_year t - 1 else full_year t);
          m = (month t - 3) mod 12
      in t\<lparr>full_year := y, month := m,
            day_of_month := min (day_of_month t) (DaysInMonth y m)\<rparr>)"

text \<open>A submission at noon UTC on 31 May 2023.\<close>

definition may31 :: local_time where
  "may31 = \<lparr>full_year = 2023, month = 4, day_of_month = 31, ms_in_day = 43200000\<rparr>"

definition may31_env :: env where
  "may31_env = example_env\<lparr>clock := (\<lambda>k. may31)\<rparr>"

section \<open>The earlier copy of the server\<close>

text \<open>
  \<^verbatim>\<open>src/Backend/server.js\<close> has the same checks, the same claim insert and the same
  \<^verbatim>\<open>PATCH\<close> route. It differs in what follows: the loop inserts a document row for every
  file without looking at the disk, the \<^verbatim>\<open>catch\<close> block removes nothing, the 201 answer
  carries the claim id alone, the listing returns the rows as selected, the error handler
  has no branch for the other errors of the upload middleware, and there is no route that
  fetches a document.
\<close>

fun insert_files_v1 ::
  "env \<Rightarrow> string \<Rightarrow> nat \<Rightarrow> uploaded_file list \<Rightarrow> database \<Rightarrow> string option \<times> database" where
  "insert_files_v1 e claimId k [] d = (None, d)"
| "insert_files_v1 e claimId k (f # rest) d =
     (case insert_document (db_fault e (Suc k)) claimId (originalname f) (path f)
             (valueOf (tz_offset e) (clock e (5 + k))) d of
        Inl err \<Rightarrow> (Some err, d)
      | Inr d' \<Rightarrow> insert_files_v1 e claimId (Suc k) rest d')"

definition post_claims_v1 ::
  "env \<Rightarrow> state \<Rightarrow> fields \<Rightarrow> uploaded_file list option \<Rightarrow> response \<times> state" where
  "post_claims_v1 e st body req_files =
     (case validation_error e body req_files of
        Some msg \<Rightarrow> (Json_error 400 msg, st)
      | None \<Rightarrow>
          (let claimId = new_claimId e
           in case insert_claim (db_fault e 0) (new_claim_row e body claimId) (db st) of
                Inl err \<Rightarrow> (Json_error 500 ''Server error while submitting claim'', st)
              | Inr d1 \<Rightarrow>
                  (case insert_files_v1 e claimId 0 (the req_files) d1 of
                     (Some err, d2) \<Rightarrow>
                       (Json_error 500 ''Server error while submitting claim'', st\<lparr>db := d2\<rparr>)
                   | (None, d2) \<Rightarrow> (Json_submitted claimId, st\<lparr>db := d2\<rparr>))))"

definition error_handler_v1 :: "error \<Rightarrow> response" where
  "error_handler_v1 err =
     (if includes_str (message err) ''Only PDF, JPG, and PNG files are allowed''
      then Json_error 400 (message err)
      else if code err = Some ''LIMIT_FILE_SIZE''
      then Json_error 400 ''File size exceeds 5MB limit''
      else Json_error 500 ''Internal server error'')"

definition POST_api_claims_v1 ::
  "env \<Rightarrow> state \<Rightarrow> fields \<Rightarrow> uploaded_file list \<Rightarrow> response \<times> state" where
  "POST_api_claims_v1 e st body parts =
     (case upload_array 5 [] parts (uploads st) of
        Inl (err, fs) \<Rightarrow> (error_handler_v1 err, st\<lparr>uploads := fs\<rparr>)
      | Inr fs \<Rightarrow> post_claims_v1 e (st\<lparr>uploads := fs\<rparr>) body (Some parts))"

definition get_claims_v1 :: "env \<Rightarrow> state \<Rightarrow> fields \<Rightarrow> response \<times> state" where
  "get_claims_v1 e st query =
     (if truthy (query ''employee_id'') \<and> \<not> test_empId (the (query ''employee_id''))
      then (Json_error 400 ''Employee ID must be ATS0 followed by 3 digits'', st)
      else
        (case select_claims (db_fault e 0) (where_clause query) (db st) of
           Inl err \<Rightarrow> (Json_error 500 ''Server error while fetching claims'', st)
         | Inr rows \<Rightarrow> (Json_rows rows, st)))"

section \<open>Properties\<close>

subsection \<open>Lists\<close>

lemma filter_empty_find: "(filter P xs = []) = (find P xs = None)"
  by (induction xs) auto

lemma hd_filter_find: "find P xs = Some r \<Longrightarrow> hd (filter P xs) = r"
  by (induction xs) (auto split: if_splits)

subsection \<open>The upload middleware\<close>

text \<open>Every error the middleware passes on is answered 400 by the error handler.\<close>

lemma error_handler_upload:
  "upload_array left stored parts fs = Inl (err, fs') \<Longrightarrow>
   \<exists>msg. error_handler err = Json_error 400 msg"
proof (induction parts arbitrary: left stored fs)
  case Nil
  then show ?case by simp
next
  case (Cons f rest)
  show ?case
  proof (cases "fieldname f \<noteq> ''documents'' \<or> left = 0")
    case True
    with Cons.prems have "err = MulterError ''LIMIT_UNEXPECTED_FILE'' ''Unexpected field''"
      by auto
    then show ?thesis by (simp add: error_handler_def)
  next
    case False
    note nf = this
    show ?thesis
    proof (cases "fileFilter f")
      case (Some x)
      with nf Cons.prems have "err = Error ''Only PDF, JPG, and PNG files are allowed''"
        by (auto simp: fileFilter_def split: if_splits)
      then show ?thesis by (simp add: error_handler_def)
    next
      case None
      show ?thesis
      proof (cases "5 * 1024 * 1024 < file_size f")
        case True
        with nf None Cons.prems have "err = MulterError ''LIMIT_FILE_SIZE'' ''File too large''"
          by auto
        then show ?thesis by (simp add: error_handler_def)
      next
        case False
        with nf None Cons.prems
        have "upload_array (left - 1) (path f # stored) rest (fs(path f \<mapsto> content f))
                = Inl (err, fs')"
          by auto
        then show ?thesis by (rule Cons.IH)
      qed
    qed
  qed
qed

text \<open>More files than the field may take: the middleware passes an error on.\<close>

lemma upload_array_over_count:
  "left < length parts \<Longrightarrow> \<exists>err fs'. upload_array left stored parts fs = Inl (err, fs')"
proof (induction parts arbitrary: left stored fs)
  case Nil
  then show ?case by simp
next
  case (Cons f rest)
  show ?case
  proof (cases "fieldname f \<noteq> ''documents'' \<or> left = 0")
    case True
    then show ?thesis by simp
  next
    case False
    then have "left - 1 < length rest"
      using Cons.prems by auto
    from Cons.IH [OF this]
    obtain err fs' where
      rec: "upload_array (left - 1) (path f # stored) rest (fs(path f \<mapsto> content f))
              = Inl (err, fs')"
      by blast
    show ?thesis
    proof (cases "fileFilter f")
      case None
      with False rec show ?thesis by simp
    next
      case (Some x)
      with False show ?thesis by simp
    qed
  qed
qed

subsection \<open>The checks of a submission\<close>

lemma truthy_Some: "truthy (Some s) = (s \<noteq> [])"
  by (simp add: truthy_def)

lemma amount_check:
  "(isNaN (parseFloat a) \<or> num_le (parseFloat a) 0 \<or> num_gt (parseFloat a) 50000)
     = (\<not> amount_in_range a)"
  by (cases "parseFloat a") (auto simp: isNaN_def num_le_def num_gt_def amount_in_range_def)

lemma validation_error_empId:
  "body ''empId'' = Some s \<Longrightarrow> \<not> test_empId s \<Longrightarrow> validation_error e body req_files \<noteq> None"
  by (simp add: validation_error_def Let_def)

lemma validation_error_claimDate:
  "body ''claimDate'' = Some s \<Longrightarrow> Date_parse e s = Some t \<Longrightarrow>
   valueOf (tz_offset e) (clock e 0) < t
     \<or> t < valueOf (tz_offset e) (setMonth (clock e 1) (getMonth (clock e 0) - 3)) \<Longrightarrow>
   validation_error e body req_files \<noteq> None"
  by (simp add: validation_error_def Let_def date_gt_def date_lt_def)

text \<open>A failed check is answered 400 by the handler, which leaves the state as it was.\<close>

lemma post_claims_validation:
  "validation_error e body req_files = Some msg \<Longrightarrow>
   post_claims e st body req_files = (Json_error 400 msg, st)"
  by (simp add: post_claims_def)


text \<open>
  For the whole route: a request the middleware refuses, and a request that fails a check,
  are answered 400 and leave the tables as they were.
\<close>

lemma route_rejected_by_upload:
  "upload_array 5 [] parts (uploads st) = Inl (err, fs) \<Longrightarrow>
   \<exists>msg. fst (POST_api_claims e st body parts) = Json_error 400 msg
     \<and> db (snd (POST_api_claims e st body parts)) = db st"
  using error_handler_upload [of 5 "[]" parts "uploads st" err fs]
  by (auto simp: POST_api_claims_def)

lemma route_rejected_by_validation:
  "validation_error e body (Some parts) = Some m \<Longrightarrow>
   \<exists>msg. fst (POST_api_claims e st body parts) = Json_error 400 msg
     \<and> db (snd (POST_api_claims e st body parts)) = db st"
proof (cases "upload_array 5 [] parts (uploads st)")
  case (Inl a)
  then obtain err fs where "upload_array 5 [] parts (uploads st) = Inl (err, fs)"
    by (cases a) auto
  then show ?thesis by (rule route_rejected_by_upload)
next
  case (Inr fs)
  assume "validation_error e body (Some parts) = Some m"
  with Inr show ?thesis
    by (simp add: POST_api_claims_def post_claims_validation)
qed

subsection \<open>The listing\<close>

lemma holds_where_clause: "holds (where_clause query) r = matches_filters query r"
  by (cases "query ''employee_id''"; cases "query ''claim_id''"; cases "query ''status''")
     (auto simp: holds_def where_clause_def matches_filters_def passes_def truthy_def)

lemma with_documents_no_fault:
  "(\<And>j. db_fault e j = None) \<Longrightarrow>
   with_documents e k d rows = Inr (map (\<lambda>c. (c, documents_of d c)) rows)"
  by (induction rows arbitrary: k) (simp_all add: select_documents_def documents_of_def)

subsection \<open>The example submission, evaluated\<close>

text \<open>
  \<^verbatim>\<open>parseFloat\<close> is evaluated in two steps: the literal read (\<open>parse_defs\<close>), then its
  rounding (\<open>round_defs\<close>). The number of binary digits of a large numeral is found from the
  two powers of 2 around it.
\<close>

lemmas parse_defs = parseFloat_def read_sign_def white_space_def is_digit_def digits_val_def
  digit_val_def read_exponent_def

lemmas round_defs = decimal64_def binary64_def floor_log2_def bit_length.simps pow2_def
  round_half_even_def negate_def Let_def

lemma bit_length_eq: "2 ^ k \<le> n \<Longrightarrow> n < 2 ^ Suc k \<Longrightarrow> bit_length n = Suc k"
proof (induction k arbitrary: n)
  case 0
  then have "n = 1"
    by simp
  then show ?case
    by (simp add: bit_length.simps)
next
  case (Suc k)
  have "2 ^ k \<le> n div 2" and "n div 2 < 2 ^ Suc k"
    using Suc.prems by simp_all
  then have "bit_length (n div 2) = Suc k"
    by (rule Suc.IH)
  moreover have "(0::nat) < 2 ^ Suc k"
    by simp
  then have "n \<noteq> 0"
    using Suc.prems(1) by linarith
  ultimately show ?case
    by (subst bit_length.simps) simp
qed

lemma parseFloat_1500_50: "parseFloat ''1500.50'' = Num (3001 / 2)"
proof -
  have "parseFloat ''1500.50'' = decimal64 150050 (- 2)"
    by (simp add: parse_defs)
  also have "\<dots> = Num (3001 / 2)"
    by (simp add: round_defs)
  finally show ?thesis .
qed

text \<open>
  A positive numeral below the smallest binary64 value is read as 0: \<open>10^(-400)\<close> has the
  exponent \<open>-1329\<close>, below the subnormal range, and rounds to no unit of \<open>2^(-1074)\<close>.
\<close>

lemma binary64_1e_400: "binary64 1 (10 ^ 400) = Num 0"
proof -
  define q :: nat where "q = 10 ^ 400"
  have "bit_length q = Suc 1328"
    unfolding q_def by (rule bit_length_eq) simp_all
  then have bq: "bit_length q = 1329"
    by simp
  have one: "bit_length (Suc 0) = 1"
    by (simp add: bit_length.simps)
  have above: "\<not> q \<le> 2 ^ 1328"
    by (simp add: q_def)
  have k: "floor_log2 1 q = - 1329"
    using above by (simp add: floor_log2_def bq one)
  define n :: nat where "n = 2 ^ 1074"
  have below: "2 * n < q"
    by (simp add: q_def n_def)
  then have "n div q = 0" and "n mod q = n"
    by simp_all
  with below have r: "round_half_even n q = 0"
    by (simp only: round_half_even_def Let_def if_True)
  have m: "(if (52::int) \<le> max (- 1329) (- 1022)
            then round_half_even 1 (q * 2 ^ nat (max (- 1329) (- 1022) - 52))
            else round_half_even (1 * 2 ^ nat (52 - max (- 1329) (- 1022))) q) = 0"
  proof -
    have "1 * 2 ^ nat (52 - max (- 1329) (- 1022)) = n"
      by (simp add: n_def)
    moreover have "\<not> (52::int) \<le> max (- 1329) (- 1022)"
      by simp
    ultimately show ?thesis
      by (simp only: r if_False)
  qed
  have "binary64 1 q = Num 0"
    by (simp only: binary64_def k Let_def m) (simp add: pow2_def)
  then show ?thesis
    by (simp only: q_def)
qed

lemma parseFloat_1e_400: "parseFloat ''1e-400'' = Num 0"
proof -
  have "parseFloat ''1e-400'' = decimal64 1 (- 400)"
    by (simp add: parse_defs)
  also have "\<dots> = binary64 1 (10 ^ 400)"
    by (simp only: decimal64_def) simp
  also have "\<dots> = Num 0"
    by (rule binary64_1e_400)
  finally show ?thesis .
qed

text \<open>The definitions a concrete request is evaluated with.\<close>

lemmas eval_defs = truthy_def test_empId_def test_empEmail_def strip_suffix_def is_local_char_def
  read_sign_def is_space_def is_digit_def digits_val_def digit_val_def
  isNaN_def num_le_def num_gt_def date_only_def DaysInMonth_def MakeDate_def
  MakeDay_def DayFromYear_def month_start_def InLeapYear_def msPerDay_def date_gt_def date_lt_def
  valueOf_def setMonth_def getMonth_def getFullYear_def parseFloat_1500_50

lemmas example_defs = example_env_def example_body_def example_file_def example_time_def
  empty_state_def

lemma example_passes_validation:
  "validation_error example_env example_body (Some [example_file]) = None"
  by (simp add: validation_error_def Let_def example_defs eval_defs)

lemma new_claim_row_simps:
  "claim_id (new_claim_row e body cid) = cid"
  "status (new_claim_row e body cid) = ''pending''"
  "created_at (new_claim_row e body cid) = valueOf (tz_offset e) (clock e 3)"
  "updated_at (new_claim_row e body cid) = valueOf (tz_offset e) (clock e 4)"
  by (simp_all add: new_claim_row_def)

lemma example_env_simps:
  "db_fault example_env k = None" "clock example_env k = example_time"
  "tz_offset example_env l = 0" "Math_random example_env = 1 / 2"
  "Date_parse example_env = date_only" "int4in example_env = pg_strtoint32"
  "unlink_fault example_env p = False"
  by (simp_all add: example_env_def)

lemma example_file_simps:
  "fieldname example_file = ''documents''" "originalname example_file = ''receipt.pdf''"
  "mimetype example_file = ''application/pdf''" "file_size example_file = 1024"
  "path example_file = ''/srv/Uploads/documents-1686837600000-42.pdf''"
  "content example_file = ''%PDF''"
  by (simp_all add: example_file_def)

lemma empty_state_simps:
  "db empty_state = \<lparr>claims = [], documents = [], documents_id_seq = 1\<rparr>"
  "uploads empty_state = Map.empty"
  by (simp_all add: empty_state_def)

lemma digits_2023: "digits 2023 = ''2023''"
  by (simp add: digits.simps digit_char_def)

lemma digits_5500: "digits 5500 = ''5500''"
  by (simp add: digits.simps digit_char_def)

lemma example_claimId: "new_claimId example_env = ''CLM-2023-5500''"
  by (simp add: new_claimId_def example_env_simps example_time_def getFullYear_def toString_def
        digits_2023 digits_5500)

lemma example_now: "valueOf (tz_offset example_env) example_time = 1686837600000"
  by (simp add: example_time_def example_env_simps Let_def eval_defs)

lemma example_row:
  "new_claim_row example_env example_body ''CLM-2023-5500'' =
     \<lparr>claim_id = ''CLM-2023-5500'', employee_name = ''Asha'', employee_email = ''a@gmail.com'',
      employee_id = ''ATS0123'', department = ''IT'', claim_date = ''2023-06-15'',
      amount = Num (3001 / 2), description = ''taxi'', type = ''travel'', status = ''pending'',
      created_at = 1686837600000, updated_at = 1686837600000\<rparr>"
  by (simp add: new_claim_row_def example_env_simps example_now example_body_def
        parseFloat_1500_50)

lemma example_submission:
  "POST_api_claims example_env empty_state example_body [example_file] =
     (Json_created ''CLM-2023-5500''
        [(''receipt.pdf'', ''/srv/Uploads/documents-1686837600000-42.pdf'')],
      \<lparr>db = \<lparr>claims = [new_claim_row example_env example_body ''CLM-2023-5500''],
              documents = [\<lparr>doc_id = 1, doc_claim_id = ''CLM-2023-5500'',
                            file_name = ''receipt.pdf'',
                            file_path = ''/srv/Uploads/documents-1686837600000-42.pdf'',
                            uploaded_at = 1686837600000\<rparr>],
              documents_id_seq = 2\<rparr>,
       uploads = [''/srv/Uploads/documents-1686837600000-42.pdf'' \<mapsto> ''%PDF'']\<rparr>)"
  by (simp add: POST_api_claims_def post_claims_def empty_state_def fileFilter_def Let_def
        allowedTypes_def example_passes_validation example_claimId insert_claim_def
        insert_document_def existsSync_def example_env_simps example_file_simps example_now
        new_claim_row_simps)

lemma submitted_state_eq:
  "submitted_state =
     \<lparr>db = \<lparr>claims = [new_claim_row example_env example_body ''CLM-2023-5500''],
             documents = [\<lparr>doc_id = 1, doc_claim_id = ''CLM-2023-5500'',
                           file_name = ''receipt.pdf'',
                           file_path = ''/srv/Uploads/documents-1686837600000-42.pdf'',
                           uploaded_at = 1686837600000\<rparr>],
             documents_id_seq = 2\<rparr>,
      uploads = [''/srv/Uploads/documents-1686837600000-42.pdf'' \<mapsto> ''%PDF'']\<rparr>"
  by (simp add: submitted_state_def example_submission)

subsection \<open>The foreign key is kept by every route\<close>

lemma foreign_key_insert_claim:
  "insert_claim fault row d = Inr d' \<Longrightarrow> foreign_key_ok d \<Longrightarrow> foreign_key_ok d'"
  by (auto simp: insert_claim_def foreign_key_ok_def list_all_iff split: option.splits if_splits)

lemma foreign_key_insert_document:
  "insert_document fault cid fname fpath t d = Inr d' \<Longrightarrow> foreign_key_ok d \<Longrightarrow>
   foreign_key_ok d'"
  by (auto simp: insert_document_def foreign_key_ok_def list_all_iff
        split: option.splits if_splits)

lemma foreign_key_insert_files:
  "foreign_key_ok d \<Longrightarrow> foreign_key_ok (snd (insert_files e fs cid k fl d))"
proof (induction fl arbitrary: k d)
  case Nil
  then show ?case by simp
next
  case (Cons f rest)
  show ?case
  proof (cases "existsSync fs (path f)")
    case False
    with Cons show ?thesis by simp
  next
    case True
    show ?thesis
    proof (cases "insert_document (db_fault e (Suc k)) cid (originalname f) (path f)
                    (valueOf (tz_offset e) (clock e (5 + k))) d")
      case (Inl err)
      with True Cons.prems show ?thesis by simp
    next
      case (Inr d')
      then have "foreign_key_ok d'"
        using Cons.prems by (rule foreign_key_insert_document)
      then have "foreign_key_ok (snd (insert_files e fs cid (Suc k) rest d'))"
        by (rule Cons.IH)
      with True Inr show ?thesis by simp
    qed
  qed
qed

lemma foreign_key_post_claims:
  assumes "foreign_key_ok (db st)"
  shows "foreign_key_ok (db (snd (post_claims e st body req_files)))"
proof (cases "validation_error e body req_files")
  case (Some msg)
  with assms show ?thesis
    by (simp add: post_claims_def)
next
  case None
  show ?thesis
  proof (cases "insert_claim (db_fault e 0) (new_claim_row e body (new_claimId e)) (db st)")
    case (Inl err)
    with None assms show ?thesis
      by (simp add: post_claims_def post_claims_catch_def)
  next
    case (Inr d1)
    then have "foreign_key_ok d1"
      using assms by (rule foreign_key_insert_claim)
    then have k: "foreign_key_ok
                    (snd (insert_files e (uploads st) (new_claimId e) 0 (the req_files) d1))"
      by (rule foreign_key_insert_files)
    obtain r d2 where
      i: "insert_files e (uploads st) (new_claimId e) 0 (the req_files) d1 = (r, d2)"
      by (cases "insert_files e (uploads st) (new_claimId e) 0 (the req_files) d1")
    with None Inr k show ?thesis
      by (cases r) (simp_all add: post_claims_def post_claims_catch_def)
  qed
qed

lemma foreign_key_POST:
  assumes "foreign_key_ok (db st)"
  shows "foreign_key_ok (db (snd (POST_api_claims e st body parts)))"
proof (cases "upload_array 5 [] parts (uploads st)")
  case (Inl a)
  with assms show ?thesis
    by (cases a) (simp add: POST_api_claims_def)
next
  case (Inr fs)
  with assms foreign_key_post_claims [of "st\<lparr>uploads := fs\<rparr>" e body "Some parts"]
  show ?thesis
    by (simp add: POST_api_claims_def)
qed

lemma foreign_key_cong:
  "map claim_id (claims d') = map claim_id (claims d) \<Longrightarrow> documents d' = documents d \<Longrightarrow>
   foreign_key_ok d' = foreign_key_ok d"
  by (simp add: foreign_key_ok_def)

lemma update_status_keeps_ids:
  "update_status fault s t cid d = Inr (rows, d') \<Longrightarrow>
   map claim_id (claims d') = map claim_id (claims d) \<and> documents d' = documents d"
proof -
  have ids: "map claim_id (map (\<lambda>r. if claim_id r = cid then r\<lparr>status := s, updated_at := t\<rparr>
                                      else r) xs) = map claim_id xs" for xs
    by (induction xs) auto
  assume "update_status fault s t cid d = Inr (rows, d')"
  then have "d' = d\<lparr>claims := map (\<lambda>r. if claim_id r = cid
                                         then r\<lparr>status := s, updated_at := t\<rparr> else r)
                                 (claims d)\<rparr>"
    by (cases fault) (simp_all add: update_status_def)
  then show ?thesis
    by (simp add: ids)
qed

lemma foreign_key_PATCH:
  assumes "foreign_key_ok (db st)"
  shows "foreign_key_ok (db (snd (patch_claim e st cid new_status)))"
proof (cases "new_status \<noteq> Some ''approved'' \<and> new_status \<noteq> Some ''rejected''")
  case True
  with assms show ?thesis
    by (simp add: patch_claim_def)
next
  case False
  show ?thesis
  proof (cases "update_status (db_fault e 0) (the new_status)
                  (valueOf (tz_offset e) (clock e 0)) cid (db st)")
    case (Inl err)
    with False assms show ?thesis
      by (simp add: patch_claim_def)
  next
    case (Inr res)
    obtain rows d' where res: "res = (rows, d')"
      by (cases res)
    from Inr [unfolded res] have "foreign_key_ok d' = foreign_key_ok (db st)"
      by (intro foreign_key_cong) (simp_all add: update_status_keeps_ids)
    with False Inr res assms show ?thesis
      by (simp add: patch_claim_def)
  qed
qed

lemma state_kept_by_reads:
  "snd (get_claims e st query) = st" "snd (get_document e st documentId) = st"
  by (auto simp: get_claims_def get_document_def Let_def split: sum.splits option.splits)

subsection \<open>Validation failures\<close>

lemma validation_error_missing:
  "k \<in> set required_fields \<Longrightarrow> \<not> truthy (body k) \<Longrightarrow> validation_error e body req_files \<noteq> None"
  by (auto simp: validation_error_def Let_def required_fields_def)

lemma validation_error_empEmail:
  "body ''empEmail'' = Some s \<Longrightarrow> \<not> test_empEmail s \<Longrightarrow>
   validation_error e body req_files \<noteq> None"
  by (simp add: validation_error_def Let_def)

lemma validation_error_amount:
  "body ''amount'' = Some a \<Longrightarrow> \<not> amount_in_range a \<Longrightarrow>
   validation_error e body req_files \<noteq> None"
  by (simp add: validation_error_def Let_def amount_check)

lemma validation_error_no_files:
  "validation_error e body (Some []) \<noteq> None"
  by (simp add: validation_error_def Let_def)

text \<open>
  Claim C1. A submission that fails one of the checks of the handler is answered with a
  400 error, and the tables \<open>claims\<close> and \<open>documents\<close> after the request are the tables
  before it. The checks: a required field is missing or empty; the employee id or the
  email does not match; the binary64 number that \<^verbatim>\<open>parseFloat\<close> reads from the amount is
  NaN or outside \<open>(0, 50000]\<close>; the time value that the engine reads from the claim date,
  in whatever spelling it reads, is after the clock reading \<open>today\<close> or before
  \<open>threeMonthsAgo\<close> (each taken with the zone offset in force at its own date); no file.
\<close>

theorem validation_failure_writes_nothing:
  assumes "(\<exists>k \<in> set required_fields. \<not> truthy (body k))
           \<or> (\<exists>s. body ''empId'' = Some s \<and> \<not> test_empId s)
           \<or> (\<exists>s. body ''empEmail'' = Some s \<and> \<not> test_empEmail s)
           \<or> (\<exists>a. body ''amount'' = Some a \<and> \<not> amount_in_range a)
           \<or> (\<exists>s t. body ''claimDate'' = Some s \<and> Date_parse e s = Some t
                  \<and> (valueOf (tz_offset e) (clock e 0) < t
                       \<or> t < valueOf (tz_offset e)
                               (setMonth (clock e 1) (getMonth (clock e 0) - 3))))
           \<or> parts = []"
  shows "\<exists>msg. fst (POST_api_claims e st body parts) = Json_error 400 msg
           \<and> db (snd (POST_api_claims e st body parts)) = db st"
proof -
  have "validation_error e body (Some parts) \<noteq> None"
    using assms validation_error_missing [of _ body e "Some parts"]
      validation_error_empId [of body _ e "Some parts"]
      validation_error_empEmail [of body _ e "Some parts"]
      validation_error_amount [of body _ e "Some parts"]
      validation_error_claimDate [of body _ e _ "Some parts"]
      validation_error_no_files [of e body]
    by blast
  then obtain m where "validation_error e body (Some parts) = Some m"
    by auto
  then show ?thesis
    by (rule route_rejected_by_validation)
qed

text \<open>
  The theorem on the example submission with the email \<^verbatim>\<open>a@yahoo.com\<close>, without a file,
  with the amount \<^verbatim>\<open>1e-400\<close> (positive, read as 0), and with the claim date 25 December
  2023 (after the 15 June of the request).
\<close>

theorem validation_failure_writes_nothing_witness:
  "\<not> test_empEmail ''a@yahoo.com''
   \<and> (\<exists>msg. fst (POST_api_claims example_env empty_state
                   (example_body(''empEmail'' \<mapsto> ''a@yahoo.com'')) [example_file])
            = Json_error 400 msg
          \<and> db (snd (POST_api_claims example_env empty_state
                   (example_body(''empEmail'' \<mapsto> ''a@yahoo.com'')) [example_file]))
            = db empty_state)
   \<and> (\<exists>msg. fst (POST_api_claims example_env empty_state example_body []) = Json_error 400 msg
          \<and> db (snd (POST_api_claims example_env empty_state example_body [])) = db empty_state)
   \<and> \<not> amount_in_range ''1e-400''
   \<and> (\<exists>msg. fst (POST_api_claims example_env empty_state
                   (example_body(''amount'' \<mapsto> ''1e-400'')) [example_file])
            = Json_error 400 msg
          \<and> db (snd (POST_api_claims example_env empty_state
                   (example_body(''amount'' \<mapsto> ''1e-400'')) [example_file]))
            = db empty_state)
   \<and> Date_parse example_env ''2023-12-25'' = Some 1703462400000
   \<and> valueOf (tz_offset example_env) (clock example_env 0) < 1703462400000
   \<and> (\<exists>msg. fst (POST_api_claims example_env empty_state
                   (example_body(''claimDate'' \<mapsto> ''2023-12-25'')) [example_file])
            = Json_error 400 msg
          \<and> db (snd (POST_api_claims example_env empty_state
                   (example_body(''claimDate'' \<mapsto> ''2023-12-25'')) [example_file]))
            = db empty_state)"
proof -
  have bad: "\<not> test_empEmail ''a@yahoo.com''"
    by (simp add: test_empEmail_def strip_suffix_def)
  have b: "(example_body(''empEmail'' \<mapsto> ''a@yahoo.com'')) ''empEmail'' = Some ''a@yahoo.com''"
    by simp
  have email: "\<exists>msg. fst (POST_api_claims example_env empty_state
                   (example_body(''empEmail'' \<mapsto> ''a@yahoo.com'')) [example_file])
            = Json_error 400 msg
          \<and> db (snd (POST_api_claims example_env empty_state
                   (example_body(''empEmail'' \<mapsto> ''a@yahoo.com'')) [example_file]))
            = db empty_state"
    using bad b
      validation_failure_writes_nothing [of "example_body(''empEmail'' \<mapsto> ''a@yahoo.com'')"
        example_env "[example_file]" empty_state]
    by blast
  have no_file: "\<exists>msg. fst (POST_api_claims example_env empty_state example_body [])
            = Json_error 400 msg
          \<and> db (snd (POST_api_claims example_env empty_state example_body [])) = db empty_state"
    using validation_failure_writes_nothing [of example_body example_env "[]" empty_state]
    by blast
  have small: "\<not> amount_in_range ''1e-400''"
    by (simp add: amount_in_range_def parseFloat_1e_400)
  have a: "(example_body(''amount'' \<mapsto> ''1e-400'')) ''amount'' = Some ''1e-400''"
    by simp
  have amount: "\<exists>msg. fst (POST_api_claims example_env empty_state
                   (example_body(''amount'' \<mapsto> ''1e-400'')) [example_file])
            = Json_error 400 msg
          \<and> db (snd (POST_api_claims example_env empty_state
                   (example_body(''amount'' \<mapsto> ''1e-400'')) [example_file]))
            = db empty_state"
    using small a
      validation_failure_writes_nothing [of "example_body(''amount'' \<mapsto> ''1e-400'')"
        example_env "[example_file]" empty_state]
    by blast
  have christmas: "Date_parse example_env ''2023-12-25'' = Some 1703462400000"
    by (simp add: example_env_simps eval_defs)
  have future: "valueOf (tz_offset example_env) (clock example_env 0) < 1703462400000"
    by (simp add: example_env_simps example_now)
  have d: "(example_body(''claimDate'' \<mapsto> ''2023-12-25'')) ''claimDate'' = Some ''2023-12-25''"
    by simp
  have date: "\<exists>msg. fst (POST_api_claims example_env empty_state
                   (example_body(''claimDate'' \<mapsto> ''2023-12-25'')) [example_file])
            = Json_error 400 msg
          \<and> db (snd (POST_api_claims example_env empty_state
                   (example_body(''claimDate'' \<mapsto> ''2023-12-25'')) [example_file]))
            = db empty_state"
    using christmas future d
      validation_failure_writes_nothing [of "example_body(''claimDate'' \<mapsto> ''2023-12-25'')"
        example_env "[example_file]" empty_state]
    by blast
  from bad email no_file small amount christmas future date show ?thesis
    by blast
qed

subsection \<open>A successful submission\<close>

lemma is_digit_digit_char: "is_digit (digit_char n)"
proof -
  have "list_all is_digit ''0123456789''"
    by (simp add: is_digit_def)
  moreover have "n mod 10 < length ''0123456789''"
    by simp
  ultimately show ?thesis
    unfolding digit_char_def list_all_length by blast
qed

lemma digits_all_digits: "list_all is_digit (digits n)"
proof (induction n rule: digits.induct)
  case (1 n)
  show ?case
  proof (cases "n < 10")
    case True
    then show ?thesis
      by (simp add: digits.simps [of n] is_digit_digit_char)
  next
    case False
    with 1 show ?thesis
      by (simp add: digits.simps [of n] is_digit_digit_char)
  qed
qed

lemma length_digits_four: "1000 \<le> n \<Longrightarrow> n < 10000 \<Longrightarrow> length (digits n) = 4"
proof -
  assume lo: "1000 \<le> n" and hi: "n < 10000"
  have a: "\<not> n < 10" and b: "\<not> n div 10 < 10" and c: "\<not> n div 10 div 10 < 10"
    and d: "n div 10 div 10 div 10 < 10"
    using lo hi by auto
  show ?thesis
    by (simp add: digits.simps [of n] digits.simps [of "n div 10"]
          digits.simps [of "n div 10 div 10"] digits.simps [of "n div 10 div 10 div 10"] a b c d)
qed

lemma four_digits_toString:
  "1000 \<le> i \<Longrightarrow> i \<le> 9999 \<Longrightarrow>
   \<exists>a b c d. toString i = [a, b, c, d] \<and> is_digit a \<and> is_digit b \<and> is_digit c \<and> is_digit d"
proof -
  assume lo: "1000 \<le> i" and hi: "i \<le> 9999"
  then have t: "toString i = digits (nat i)"
    by (simp add: toString_def)
  have "length (digits (nat i)) = 4"
    using lo hi by (intro length_digits_four) auto
  then obtain a b c d where e: "digits (nat i) = [a, b, c, d]"
    by (auto simp: length_Suc_conv numeral_eq_Suc)
  with digits_all_digits [of "nat i"] t show ?thesis
    by simp
qed

lemma new_claimId_form:
  assumes "1000 \<le> getFullYear (clock e 2)" and "getFullYear (clock e 2) \<le> 9999"
    and "0 \<le> Math_random e" and "Math_random e < 1"
  shows "is_claim_id (new_claimId e)"
proof -
  define k where "k = \<lfloor>1000 + Math_random e * 9000\<rfloor>"
  have lo: "1000 \<le> k"
    unfolding k_def using assms(3) by (simp add: le_floor_iff)
  have "1000 + Math_random e * 9000 < 10000"
    using assms(4) by simp
  then have "k < 10000"
    unfolding k_def by (simp only: floor_less_iff of_int_numeral)
  then have hi: "k \<le> 9999"
    by simp
  from four_digits_toString [OF assms(1,2)] obtain a b c d where
    y: "toString (getFullYear (clock e 2)) = [a, b, c, d]"
       "is_digit a" "is_digit b" "is_digit c" "is_digit d"
    by blast
  from four_digits_toString [OF lo hi] obtain a' b' c' d' where
    r: "toString k = [a', b', c', d']"
       "is_digit a'" "is_digit b'" "is_digit c'" "is_digit d'"
    by blast
  have "new_claimId e = ''CLM-'' @ toString (getFullYear (clock e 2)) @ ''-'' @ toString k"
    by (simp only: new_claimId_def k_def)
  then show ?thesis
    by (simp add: is_claim_id_def y r)
qed

lemma upload_array_stores:
  "upload_array left stored parts fs = Inr fs' \<Longrightarrow>
   (\<forall>p. fs p \<noteq> None \<longrightarrow> fs' p \<noteq> None) \<and> (\<forall>f \<in> set parts. fs' (path f) \<noteq> None)"
proof (induction parts arbitrary: left stored fs)
  case Nil
  then show ?case by simp
next
  case (Cons f rest)
  from Cons.prems
  have rec: "upload_array (left - 1) (path f # stored) rest (fs(path f \<mapsto> content f)) = Inr fs'"
    by (auto split: if_splits option.splits)
  from Cons.IH [OF rec]
  have keep: "\<forall>p. (fs(path f \<mapsto> content f)) p \<noteq> None \<longrightarrow> fs' p \<noteq> None"
    and new: "\<forall>g \<in> set rest. fs' (path g) \<noteq> None"
    by blast+
  from keep have "fs' (path f) \<noteq> None"
    by (metis fun_upd_same option.distinct(1))
  moreover from keep have "\<forall>p. fs p \<noteq> None \<longrightarrow> fs' p \<noteq> None"
    by (metis fun_upd_apply option.distinct(1))
  ultimately show ?case
    using new by simp
qed

lemma error_handler_is_error: "\<exists>n msg. error_handler err = Json_error n msg"
  by (simp add: error_handler_def)

lemma insert_claim_Inr:
  "insert_claim fault row d = Inr d1 \<Longrightarrow>
   d1 = d\<lparr>claims := claims d @ [row]\<rparr> \<and> claim_id row \<notin> set (map claim_id (claims d))"
  by (auto simp: insert_claim_def split: option.splits if_splits)

text \<open>
  When every file is on disk and no insert is rejected, the loop appends one document row
  per file, in order, with the claim id, the original name and the path.
\<close>

lemma insert_files_all:
  "insert_files e fs cid k fl d = (None, d2) \<Longrightarrow> \<forall>f \<in> set fl. fs (path f) \<noteq> None \<Longrightarrow>
   claims d2 = claims d
   \<and> (\<exists>new. documents d2 = documents d @ new
          \<and> map doc_claim_id new = replicate (length fl) cid
          \<and> map file_name new = map originalname fl
          \<and> map file_path new = map path fl)"
proof (induction fl arbitrary: k d)
  case Nil
  then show ?case by simp
next
  case (Cons f rest)
  have ex: "existsSync fs (path f)"
    using Cons.prems(2) by (simp add: existsSync_def)
  define t where "t = valueOf (tz_offset e) (clock e (5 + k))"
  obtain d' where
    ins: "insert_document (db_fault e (Suc k)) cid (originalname f) (path f) t d = Inr d'"
    and rec: "insert_files e fs cid (Suc k) rest d' = (None, d2)"
    using Cons.prems(1) ex unfolding t_def
    by (cases "insert_document (db_fault e (Suc k)) cid (originalname f) (path f)
                 (valueOf (tz_offset e) (clock e (5 + k))) d") auto
  from ins have d': "claims d' = claims d"
    "documents d' = documents d @ [\<lparr>doc_id = documents_id_seq d, doc_claim_id = cid,
       file_name = originalname f, file_path = path f, uploaded_at = t\<rparr>]"
    by (auto simp: insert_document_def split: option.splits if_splits)
  from Cons.IH [OF rec] Cons.prems(2) obtain new where
    n: "claims d2 = claims d'" "documents d2 = documents d' @ new"
       "map doc_claim_id new = replicate (length rest) cid"
       "map file_name new = map originalname rest" "map file_path new = map path rest"
    by auto
  let ?row = "\<lparr>doc_id = documents_id_seq d, doc_claim_id = cid,
       file_name = originalname f, file_path = path f, uploaded_at = t\<rparr>"
  have "documents d2 = documents d @ (?row # new)"
    using n(2) d'(2) by simp
  moreover have "map doc_claim_id (?row # new) = replicate (length (f # rest)) cid"
    using n(3) by simp
  moreover have "map file_name (?row # new) = map originalname (f # rest)"
    using n(4) by simp
  moreover have "map file_path (?row # new) = map path (f # rest)"
    using n(5) by simp
  ultimately have "\<exists>new. documents d2 = documents d @ new
          \<and> map doc_claim_id new = replicate (length (f # rest)) cid
          \<and> map file_name new = map originalname (f # rest)
          \<and> map file_path new = map path (f # rest)"
    by (intro exI [of _ "?row # new"] conjI)
  then show ?case
    using n(1) d'(1) by simp
qed

lemma post_claims_created:
  assumes "post_claims e st body (Some fl) = (Json_created cid docs, st')"
  shows "cid = new_claimId e \<and> docs = map (\<lambda>f. (originalname f, path f)) fl
         \<and> (\<exists>d1 d2. insert_claim (db_fault e 0) (new_claim_row e body cid) (db st) = Inr d1
                \<and> insert_files e (uploads st) cid 0 fl d1 = (None, d2)
                \<and> st' = st\<lparr>db := d2\<rparr>)"
proof (cases "validation_error e body (Some fl)")
  case (Some msg)
  with assms show ?thesis
    by (simp add: post_claims_def)
next
  case None
  show ?thesis
  proof (cases "insert_claim (db_fault e 0) (new_claim_row e body (new_claimId e)) (db st)")
    case (Inl err)
    with None assms show ?thesis
      by (simp add: post_claims_def post_claims_catch_def)
  next
    case (Inr d1)
    obtain r d2 where
      i: "insert_files e (uploads st) (new_claimId e) 0 fl d1 = (r, d2)"
      by (cases "insert_files e (uploads st) (new_claimId e) 0 fl d1")
    show ?thesis
    proof (cases r)
      case None': None
      with None Inr i assms show ?thesis
        by (auto simp: post_claims_def)
    next
      case (Some err)
      with None Inr i assms show ?thesis
        by (simp add: post_claims_def post_claims_catch_def)
    qed
  qed
qed

lemma filter_fresh_claim:
  "cid \<notin> set (map claim_id xs) \<Longrightarrow> filter (\<lambda>r. claim_id r = cid) xs = []"
  by (induction xs) auto

lemma filter_no_document:
  "list_all (\<lambda>r. doc_claim_id r \<in> ids) ds \<Longrightarrow> cid \<notin> ids \<Longrightarrow>
   filter (\<lambda>r. doc_claim_id r = cid) ds = []"
  by (induction ds) auto

lemma filter_all_documents:
  "map doc_claim_id new = replicate n cid \<Longrightarrow> filter (\<lambda>r. doc_claim_id r = cid) new = new"
proof (induction new arbitrary: n)
  case Nil
  then show ?case by simp
next
  case (Cons r rest)
  then show ?case
    by (cases n) auto
qed

lemma list_one_claim:
  assumes "\<forall>j. db_fault e j = None" and "cid \<noteq> []"
    and "filter (\<lambda>r. claim_id r = cid) (claims (db st)) = [row]"
  shows "get_claims e st [''claim_id'' \<mapsto> cid]
           = (Json_claims [(row, documents_of (db st) row)], st)"
proof -
  have w: "where_clause [''claim_id'' \<mapsto> cid] = [(Claim_id, cid)]"
    using assms(2) by (simp add: where_clause_def truthy_def)
  have h: "holds [(Claim_id, cid)] = (\<lambda>r. claim_id r = cid)"
    by (simp add: holds_def fun_eq_iff)
  have nf: "\<And>j. db_fault e j = None"
    using assms(1) by simp
  show ?thesis
    using assms(3)
    by (simp add: get_claims_def truthy_def w h select_claims_def nf with_documents_no_fault
          del: with_documents.simps)
qed

text \<open>
  Claim C2. Let a submission be answered 201 with the claim id \<open>cid\<close>, on a store whose
  foreign key holds, at a time whose year has four digits, with \<^verbatim>\<open>Math.random()\<close> in
  \<open>[0, 1)\<close>, and let \<open>now\<close> be the reading of the clock for both \<open>created_at\<close> and
  \<open>updated_at\<close>. Then \<open>cid\<close> has the form \<^verbatim>\<open>CLM-<4-digit-year>-<4 digits>\<close>; the answer names
  as many documents as files were sent, by their original names; the table holds exactly
  one claim with that id, with status \<^verbatim>\<open>pending\<close> and \<open>created_at = updated_at = now\<close>; and a
  listing filtered by \<open>cid\<close>, when the store answers, returns exactly that claim, with
  documents whose file names are the original names of the files sent, in order.
\<close>

theorem successful_submission:
  assumes "POST_api_claims e st body parts = (Json_created cid docs, st')"
    and "foreign_key_ok (db st)"
    and "1000 \<le> getFullYear (clock e 2)" and "getFullYear (clock e 2) \<le> 9999"
    and "0 \<le> Math_random e" and "Math_random e < 1"
    and "clock e 3 = now" and "clock e 4 = now"
    and "\<forall>j. db_fault e' j = None"
  shows "is_claim_id cid
         \<and> length docs = length parts \<and> map fst docs = map originalname parts
         \<and> (\<exists>row ds.
               filter (\<lambda>r. claim_id r = cid) (claims (db st')) = [row]
               \<and> status row = ''pending''
               \<and> created_at row = valueOf (tz_offset e) now
               \<and> updated_at row = valueOf (tz_offset e) now
               \<and> get_claims e' st' [''claim_id'' \<mapsto> cid] = (Json_claims [(row, ds)], st')
               \<and> map (\<lambda>(i, n, p). n) ds = map originalname parts)"
proof -
  obtain fs1 where up: "upload_array 5 [] parts (uploads st) = Inr fs1"
    and pc: "post_claims e (st\<lparr>uploads := fs1\<rparr>) body (Some parts) = (Json_created cid docs, st')"
  proof (cases "upload_array 5 [] parts (uploads st)")
    case (Inl a)
    obtain err fs where "a = (err, fs)"
      by (cases a)
    with Inl assms(1) error_handler_is_error [of err] show ?thesis
      by (auto simp: POST_api_claims_def)
  next
    case (Inr fs1)
    with assms(1) show ?thesis
      by (intro that [of fs1]) (simp_all add: POST_api_claims_def)
  qed
  from post_claims_created [OF pc] obtain d1 d2 where
    cid: "cid = new_claimId e" and docs: "docs = map (\<lambda>f. (originalname f, path f)) parts"
    and ic: "insert_claim (db_fault e 0) (new_claim_row e body cid) (db st) = Inr d1"
    and ifs: "insert_files e fs1 cid 0 parts d1 = (None, d2)"
    and st': "st' = st\<lparr>uploads := fs1, db := d2\<rparr>"
    by auto
  define row where "row = new_claim_row e body cid"
  from insert_claim_Inr [OF ic]
  have d1: "d1 = (db st)\<lparr>claims := claims (db st) @ [row]\<rparr>"
    and fresh: "cid \<notin> set (map claim_id (claims (db st)))"
    by (simp_all add: row_def new_claim_row_simps)
  have on_disk: "\<forall>f \<in> set parts. fs1 (path f) \<noteq> None"
    using upload_array_stores [OF up] by blast
  from insert_files_all [OF ifs on_disk] obtain new where
    c2: "claims d2 = claims d1" and n: "documents d2 = documents d1 @ new"
      "map doc_claim_id new = replicate (length parts) cid"
      "map file_name new = map originalname parts"
    by blast
  have form: "is_claim_id cid"
    unfolding cid using assms(3-6) by (rule new_claimId_form)
  then have ne: "cid \<noteq> []"
    by (auto simp: is_claim_id_def)
  have one: "filter (\<lambda>r. claim_id r = cid) (claims (db st')) = [row]"
    using fresh by (simp add: st' c2 d1 filter_fresh_claim row_def new_claim_row_simps)
  have old: "filter (\<lambda>r. doc_claim_id r = cid) (documents (db st)) = []"
    using assms(2) fresh unfolding foreign_key_ok_def by (rule filter_no_document)
  have ds: "documents_of (db st') row = map (\<lambda>r. (doc_id r, file_name r, file_path r)) new"
    using old filter_all_documents [OF n(2)]
    by (simp add: documents_of_def st' n(1) d1 row_def new_claim_row_simps)
  have names: "map (\<lambda>(i, n, p). n) (documents_of (db st') row) = map originalname parts"
    using n(3) by (simp add: ds comp_def)
  have listing: "get_claims e' st' [''claim_id'' \<mapsto> cid]
                   = (Json_claims [(row, documents_of (db st') row)], st')"
    using assms(9) ne one by (rule list_one_claim)
  have fields: "status row = ''pending''" "created_at row = valueOf (tz_offset e) now"
    "updated_at row = valueOf (tz_offset e) now"
    using assms(7,8) by (simp_all add: row_def new_claim_row_simps)
  have "\<exists>row ds.
               filter (\<lambda>r. claim_id r = cid) (claims (db st')) = [row]
               \<and> status row = ''pending''
               \<and> created_at row = valueOf (tz_offset e) now
               \<and> updated_at row = valueOf (tz_offset e) now
               \<and> get_claims e' st' [''claim_id'' \<mapsto> cid] = (Json_claims [(row, ds)], st')
               \<and> map (\<lambda>(i, n, p). n) ds = map originalname parts"
    using one fields listing names
    by (intro exI [of _ row] exI [of _ "documents_of (db st') row"] conjI)
  with form docs show ?thesis
    by (simp add: comp_def)
qed

text \<open>The theorem on the example submission and a listing by its claim id.\<close>

theorem successful_submission_witness:
  "POST_api_claims example_env empty_state example_body [example_file]
     = (Json_created ''CLM-2023-5500''
          [(''receipt.pdf'', ''/srv/Uploads/documents-1686837600000-42.pdf'')], submitted_state)
   \<and> foreign_key_ok (db empty_state)
   \<and> 1000 \<le> getFullYear (clock example_env 2) \<and> getFullYear (clock example_env 2) \<le> 9999
   \<and> 0 \<le> Math_random example_env \<and> Math_random example_env < 1
   \<and> clock example_env 3 = example_time \<and> clock example_env 4 = example_time
   \<and> (\<forall>j. db_fault later_env j = None)
   \<and> is_claim_id ''CLM-2023-5500''
   \<and> (\<exists>row ds.
         filter (\<lambda>r. claim_id r = ''CLM-2023-5500'') (claims (db submitted_state)) = [row]
         \<and> status row = ''pending''
         \<and> created_at row = valueOf (tz_offset example_env) example_time
         \<and> updated_at row = valueOf (tz_offset example_env) example_time
         \<and> get_claims later_env submitted_state [''claim_id'' \<mapsto> ''CLM-2023-5500'']
             = (Json_claims [(row, ds)], submitted_state)
         \<and> map (\<lambda>(i, n, p). n) ds = map originalname [example_file])"
proof -
  have s: "POST_api_claims example_env empty_state example_body [example_file]
     = (Json_created ''CLM-2023-5500''
          [(''receipt.pdf'', ''/srv/Uploads/documents-1686837600000-42.pdf'')], submitted_state)"
    by (simp add: example_submission submitted_state_eq)
  have fk: "foreign_key_ok (db empty_state)"
    by (simp add: foreign_key_ok_def empty_state_simps)
  have y: "1000 \<le> getFullYear (clock example_env 2)" "getFullYear (clock example_env 2) \<le> 9999"
    by (simp_all add: example_env_simps example_time_def getFullYear_def)
  have r: "0 \<le> Math_random example_env" "Math_random example_env < 1"
    by (simp_all add: example_env_simps)
  have c: "clock example_env 3 = example_time" "clock example_env 4 = example_time"
    by (simp_all add: example_env_simps)
  have nf: "\<forall>j. db_fault later_env j = None"
    by (simp add: later_env_def example_env_simps)
  from successful_submission [OF s fk y r c nf] s fk y r c nf
  show ?thesis
    by simp
qed

subsection \<open>Status updates\<close>

lemma update_no_match:
  "find (\<lambda>r. claim_id r = cid) xs = None \<Longrightarrow>
   map (\<lambda>r. if claim_id r = cid then r\<lparr>status := s, updated_at := t\<rparr> else r) xs = xs
   \<and> filter (\<lambda>r. claim_id r = cid) xs = []"
  by (induction xs) (auto split: if_splits)

lemma find_after_update:
  "find (\<lambda>r. claim_id r = cid)
     (map (\<lambda>r. if claim_id r = cid then r\<lparr>status := s, updated_at := t\<rparr> else r) xs)
   = map_option (\<lambda>r. r\<lparr>status := s, updated_at := t\<rparr>) (find (\<lambda>r. claim_id r = cid) xs)"
  by (induction xs) auto

lemma patch_claim_invalid:
  "new_status \<noteq> Some ''approved'' \<Longrightarrow> new_status \<noteq> Some ''rejected'' \<Longrightarrow>
   patch_claim e st cid new_status = (Json_error 400 ''Status must be approved or rejected'', st)"
  by (simp add: patch_claim_def)

lemma patch_claim_not_found:
  assumes "s = ''approved'' \<or> s = ''rejected''" and "db_fault e 0 = None"
    and "find (\<lambda>r. claim_id r = cid) (claims (db st)) = None"
  shows "patch_claim e st cid (Some s) = (Json_error 404 ''Claim not found'', st)"
  using assms update_no_match [OF assms(3), where s = s and t = "valueOf (tz_offset e) (clock e 0)"]
  by (auto simp: patch_claim_def update_status_def)

lemma patch_claim_found:
  assumes "s = ''approved'' \<or> s = ''rejected''" and "db_fault e 0 = None"
    and "find (\<lambda>r. claim_id r = cid) (claims (db st)) = Some r"
  shows "patch_claim e st cid (Some s) =
           (Json_claim (r\<lparr>status := s, updated_at := valueOf (tz_offset e) (clock e 0)\<rparr>),
            st\<lparr>db := (db st)\<lparr>claims :=
                   map (\<lambda>r. if claim_id r = cid
                              then r\<lparr>status := s, updated_at := valueOf (tz_offset e) (clock e 0)\<rparr>
                              else r) (claims (db st))\<rparr>\<rparr>)"
proof -
  have ne: "filter (\<lambda>r. claim_id r = cid) (claims (db st)) \<noteq> []"
    using assms(3) by (simp add: filter_empty_find)
  have "hd (filter (\<lambda>r. claim_id r = cid) (claims (db st))) = r"
    using assms(3) by (rule hd_filter_find)
  then have "hd (map (\<lambda>r. r\<lparr>status := s, updated_at := valueOf (tz_offset e) (clock e 0)\<rparr>)
                  (filter (\<lambda>r. claim_id r = cid) (claims (db st))))
             = r\<lparr>status := s, updated_at := valueOf (tz_offset e) (clock e 0)\<rparr>"
    using ne by (simp add: hd_map)
  with assms(1,2) ne show ?thesis
    by (auto simp: patch_claim_def update_status_def)
qed

text \<open>
  Claim C3. (1) A status other than the strings \<^verbatim>\<open>approved\<close> and \<^verbatim>\<open>rejected\<close> is answered
  with a 400 error and nothing changes. For one of the two strings, when the store executes
  the statement: (2) if no claim has the id, the answer is 404 and nothing changes; (3) if
  the claim \<open>r\<close> has the id, the answer is \<open>r\<close> with the new status and with \<open>updated_at\<close>
  set to the clock reading, and that is the row the table then holds for the id. (4) Two
  calls in a row on an existing claim, with different statuses \<open>s1\<close> and \<open>s2\<close>, are both
  answered 200; the row the table holds afterwards has status \<open>s2\<close> and the second
  reading as \<open>updated_at\<close>, which is not before the first call's when the clock did not go
  back between them.
\<close>

theorem update_status_outcomes:
  "(new_status \<noteq> Some ''approved'' \<and> new_status \<noteq> Some ''rejected'' \<longrightarrow>
      patch_claim e st cid new_status
        = (Json_error 400 ''Status must be approved or rejected'', st))
   \<and> ((s = ''approved'' \<or> s = ''rejected'') \<and> db_fault e 0 = None
        \<and> find (\<lambda>r. claim_id r = cid) (claims (db st)) = None \<longrightarrow>
      patch_claim e st cid (Some s) = (Json_error 404 ''Claim not found'', st))
   \<and> ((s = ''approved'' \<or> s = ''rejected'') \<and> db_fault e 0 = None
        \<and> find (\<lambda>r. claim_id r = cid) (claims (db st)) = Some r \<longrightarrow>
      fst (patch_claim e st cid (Some s))
        = Json_claim (r\<lparr>status := s, updated_at := valueOf (tz_offset e) (clock e 0)\<rparr>)
      \<and> find (\<lambda>r. claim_id r = cid) (claims (db (snd (patch_claim e st cid (Some s)))))
          = Some (r\<lparr>status := s, updated_at := valueOf (tz_offset e) (clock e 0)\<rparr>))
   \<and> ((s1 = ''approved'' \<or> s1 = ''rejected'') \<and> (s2 = ''approved'' \<or> s2 = ''rejected'')
        \<and> s1 \<noteq> s2 \<and> db_fault e1 0 = None \<and> db_fault e2 0 = None
        \<and> find (\<lambda>r. claim_id r = cid) (claims (db st)) = Some r
        \<and> valueOf (tz_offset e1) (clock e1 0) \<le> valueOf (tz_offset e2) (clock e2 0) \<longrightarrow>
      (\<exists>r1 r2.
         fst (patch_claim e1 st cid (Some s1)) = Json_claim r1
         \<and> fst (patch_claim e2 (snd (patch_claim e1 st cid (Some s1))) cid (Some s2))
             = Json_claim r2
         \<and> find (\<lambda>r. claim_id r = cid)
              (claims (db (snd (patch_claim e2 (snd (patch_claim e1 st cid (Some s1)))
                                  cid (Some s2))))) = Some r2
         \<and> status r2 = s2
         \<and> updated_at r1 = valueOf (tz_offset e1) (clock e1 0)
         \<and> updated_at r2 = valueOf (tz_offset e2) (clock e2 0)
         \<and> updated_at r1 \<le> updated_at r2))"
proof (intro conjI impI)
  assume "new_status \<noteq> Some ''approved'' \<and> new_status \<noteq> Some ''rejected''"
  then show "patch_claim e st cid new_status
               = (Json_error 400 ''Status must be approved or rejected'', st)"
    by (simp add: patch_claim_invalid)
next
  assume "(s = ''approved'' \<or> s = ''rejected'') \<and> db_fault e 0 = None
            \<and> find (\<lambda>r. claim_id r = cid) (claims (db st)) = None"
  then show "patch_claim e st cid (Some s) = (Json_error 404 ''Claim not found'', st)"
    by (simp add: patch_claim_not_found)
next
  assume a: "(s = ''approved'' \<or> s = ''rejected'') \<and> db_fault e 0 = None
            \<and> find (\<lambda>r. claim_id r = cid) (claims (db st)) = Some r"
  then have p: "patch_claim e st cid (Some s) =
           (Json_claim (r\<lparr>status := s, updated_at := valueOf (tz_offset e) (clock e 0)\<rparr>),
            st\<lparr>db := (db st)\<lparr>claims :=
                   map (\<lambda>r. if claim_id r = cid
                              then r\<lparr>status := s, updated_at := valueOf (tz_offset e) (clock e 0)\<rparr>
                              else r) (claims (db st))\<rparr>\<rparr>)"
    by (simp add: patch_claim_found)
  show "fst (patch_claim e st cid (Some s))
          = Json_claim (r\<lparr>status := s, updated_at := valueOf (tz_offset e) (clock e 0)\<rparr>)"
    by (simp add: p)
  show "find (\<lambda>r. claim_id r = cid) (claims (db (snd (patch_claim e st cid (Some s)))))
          = Some (r\<lparr>status := s, updated_at := valueOf (tz_offset e) (clock e 0)\<rparr>)"
    using a by (simp add: p find_after_update)
next
  assume a: "(s1 = ''approved'' \<or> s1 = ''rejected'') \<and> (s2 = ''approved'' \<or> s2 = ''rejected'')
        \<and> s1 \<noteq> s2 \<and> db_fault e1 0 = None \<and> db_fault e2 0 = None
        \<and> find (\<lambda>r. claim_id r = cid) (claims (db st)) = Some r
        \<and> valueOf (tz_offset e1) (clock e1 0) \<le> valueOf (tz_offset e2) (clock e2 0)"
  define t1 where "t1 = valueOf (tz_offset e1) (clock e1 0)"
  define t2 where "t2 = valueOf (tz_offset e2) (clock e2 0)"
  define st1 where "st1 = snd (patch_claim e1 st cid (Some s1))"
  have p1: "patch_claim e1 st cid (Some s1) =
           (Json_claim (r\<lparr>status := s1, updated_at := t1\<rparr>),
            st\<lparr>db := (db st)\<lparr>claims :=
                   map (\<lambda>r. if claim_id r = cid then r\<lparr>status := s1, updated_at := t1\<rparr> else r)
                     (claims (db st))\<rparr>\<rparr>)"
    unfolding t1_def using a by (simp add: patch_claim_found)
  have f1: "find (\<lambda>r. claim_id r = cid) (claims (db st1)) = Some (r\<lparr>status := s1, updated_at := t1\<rparr>)"
    unfolding st1_def using a by (simp add: p1 find_after_update)
  have p2: "patch_claim e2 st1 cid (Some s2) =
           (Json_claim (r\<lparr>status := s1, updated_at := t1, status := s2, updated_at := t2\<rparr>),
            st1\<lparr>db := (db st1)\<lparr>claims :=
                   map (\<lambda>r. if claim_id r = cid then r\<lparr>status := s2, updated_at := t2\<rparr> else r)
                     (claims (db st1))\<rparr>\<rparr>)"
    unfolding t2_def using a f1 patch_claim_found [of s2 e2 cid st1 "r\<lparr>status := s1, updated_at := t1\<rparr>"]
    by simp
  have f2: "find (\<lambda>r. claim_id r = cid) (claims (db (snd (patch_claim e2 st1 cid (Some s2)))))
              = Some (r\<lparr>status := s2, updated_at := t2\<rparr>)"
    using f1 by (simp add: p2 find_after_update)
  have "t1 \<le> t2"
    using a by (simp add: t1_def t2_def)
  then show "\<exists>r1 r2.
         fst (patch_claim e1 st cid (Some s1)) = Json_claim r1
         \<and> fst (patch_claim e2 (snd (patch_claim e1 st cid (Some s1))) cid (Some s2))
             = Json_claim r2
         \<and> find (\<lambda>r. claim_id r = cid)
              (claims (db (snd (patch_claim e2 (snd (patch_claim e1 st cid (Some s1)))
                                  cid (Some s2))))) = Some r2
         \<and> status r2 = s2
         \<and> updated_at r1 = valueOf (tz_offset e1) (clock e1 0)
         \<and> updated_at r2 = valueOf (tz_offset e2) (clock e2 0)
         \<and> updated_at r1 \<le> updated_at r2"
    using p1 p2 f2 unfolding st1_def [symmetric] t1_def [symmetric] t2_def [symmetric]
    by simp
qed

text \<open>
  On the state after the example submission: \<^verbatim>\<open>pending\<close> is refused, an unknown id is a
  404, and the claim \<^verbatim>\<open>CLM-2023-5500\<close> is approved and, a minute later, rejected.
\<close>

theorem update_status_outcomes_witness:
  "patch_claim example_env submitted_state ''CLM-2023-5500'' (Some ''pending'')
     = (Json_error 400 ''Status must be approved or rejected'', submitted_state)
   \<and> find (\<lambda>r. claim_id r = ''CLM-1999-0000'') (claims (db submitted_state)) = None
   \<and> patch_claim example_env submitted_state ''CLM-1999-0000'' (Some ''approved'')
       = (Json_error 404 ''Claim not found'', submitted_state)
   \<and> find (\<lambda>r. claim_id r = ''CLM-2023-5500'') (claims (db submitted_state))
       = Some (new_claim_row example_env example_body ''CLM-2023-5500'')
   \<and> valueOf (tz_offset example_env) (clock example_env 0)
       \<le> valueOf (tz_offset later_env) (clock later_env 0)
   \<and> (\<exists>r1 r2.
         fst (patch_claim example_env submitted_state ''CLM-2023-5500'' (Some ''approved''))
           = Json_claim r1
         \<and> fst (patch_claim later_env
                  (snd (patch_claim example_env submitted_state ''CLM-2023-5500''
                          (Some ''approved'')))
                  ''CLM-2023-5500'' (Some ''rejected'')) = Json_claim r2
         \<and> status r2 = ''rejected''
         \<and> updated_at r1 = 1686837600000 \<and> updated_at r2 = 1686837660000)"
proof -
  have nf: "find (\<lambda>r. claim_id r = ''CLM-1999-0000'') (claims (db submitted_state)) = None"
    by (simp add: submitted_state_eq new_claim_row_simps)
  have fd: "find (\<lambda>r. claim_id r = ''CLM-2023-5500'') (claims (db submitted_state))
              = Some (new_claim_row example_env example_body ''CLM-2023-5500'')"
    by (simp add: submitted_state_eq new_claim_row_simps)
  have f1: "db_fault example_env 0 = None" and f2: "db_fault later_env 0 = None"
    by (simp_all add: later_env_def example_env_simps)
  have t1: "valueOf (tz_offset example_env) (clock example_env 0) = 1686837600000"
    by (simp add: example_env_simps example_now)
  have t2: "valueOf (tz_offset later_env) (clock later_env 0) = 1686837660000"
    by (simp add: later_env_def example_env_simps example_time_def eval_defs)
  note inst = update_status_outcomes [where new_status = "Some ''pending''" and e = example_env
      and st = submitted_state and s = "''approved''" and ?s1.0 = "''approved''"
      and ?s2.0 = "''rejected''" and ?e1.0 = example_env and ?e2.0 = later_env
      and r = "new_claim_row example_env example_body ''CLM-2023-5500''"]
  from inst [of "''CLM-2023-5500''"] inst [of "''CLM-1999-0000''"] nf fd f1 f2 t1 t2
  show ?thesis
    by auto
qed

subsection \<open>Listing claims\<close>

lemma sorted_newest_first:
  "sorted_wrt (\<lambda>a b. created_at b \<le> created_at a) (sort_key (\<lambda>r. - created_at r) xs)"
proof -
  have "sorted (map (\<lambda>r. - created_at r) (sort_key (\<lambda>r. - created_at r) xs))"
    by (rule sorted_sort_key)
  then show ?thesis
    by (simp add: sorted_wrt_map)
qed

text \<open>
  Claim C4. When the store answers the queries and the \<^verbatim>\<open>employee_id\<close> filter, if given,
  matches the pattern, the listing answers with rows such that: they are exactly the claims
  of the table that match all the filters given (each as often as the table holds it: the
  whole result, no page); they are in descending order of \<open>created_at\<close>; and each comes
  with its documents (id, file name, file path). The state is unchanged. (The earlier copy
  \<^verbatim>\<open>Backend/server.js\<close> answers with the same rows without the documents.)
\<close>

theorem list_claims_filtered_sorted_enriched:
  assumes "\<forall>j. db_fault e j = None"
    and "\<not> truthy (query ''employee_id'') \<or> test_empId (the (query ''employee_id''))"
  shows "\<exists>rows.
           get_claims e st query = (Json_claims (map (\<lambda>c. (c, documents_of (db st) c)) rows), st)
           \<and> mset rows = mset (filter (matches_filters query) (claims (db st)))
           \<and> sorted_wrt (\<lambda>a b. created_at b \<le> created_at a) rows"
proof -
  define rows where
    "rows = sort_key (\<lambda>r. - created_at r) (filter (holds (where_clause query)) (claims (db st)))"
  have nf: "\<And>j. db_fault e j = None"
    using assms(1) by simp
  have "get_claims e st query = (Json_claims (map (\<lambda>c. (c, documents_of (db st) c)) rows), st)"
    using assms(2) nf
    by (auto simp: get_claims_def select_claims_def rows_def with_documents_no_fault)
  moreover have "mset rows = mset (filter (matches_filters query) (claims (db st)))"
    by (simp add: rows_def holds_where_clause [abs_def])
  moreover have "sorted_wrt (\<lambda>a b. created_at b \<le> created_at a) rows"
    unfolding rows_def by (rule sorted_newest_first)
  ultimately show ?thesis
    by blast
qed

text \<open>The listing of the pending claims after the example submission.\<close>

theorem list_claims_filtered_sorted_enriched_witness:
  "(\<forall>j. db_fault example_env j = None)
   \<and> \<not> truthy ([''status'' \<mapsto> ''pending''] ''employee_id'')
   \<and> (\<exists>rows.
        get_claims example_env submitted_state [''status'' \<mapsto> ''pending'']
          = (Json_claims (map (\<lambda>c. (c, documents_of (db submitted_state) c)) rows),
             submitted_state)
        \<and> mset rows = mset (filter (matches_filters [''status'' \<mapsto> ''pending''])
                               (claims (db submitted_state)))
        \<and> sorted_wrt (\<lambda>a b. created_at b \<le> created_at a) rows)
   \<and> filter (matches_filters [''status'' \<mapsto> ''pending'']) (claims (db submitted_state))
       = [new_claim_row example_env example_body ''CLM-2023-5500'']
   \<and> documents_of (db submitted_state) (new_claim_row example_env example_body ''CLM-2023-5500'')
       = [(1, ''receipt.pdf'', ''/srv/Uploads/documents-1686837600000-42.pdf'')]"
proof -
  have nf: "\<forall>j. db_fault example_env j = None"
    by (simp add: example_env_simps)
  have ne: "\<not> truthy ([''status'' \<mapsto> ''pending''] ''employee_id'')"
    by (simp add: truthy_def)
  have m: "filter (matches_filters [''status'' \<mapsto> ''pending'']) (claims (db submitted_state))
             = [new_claim_row example_env example_body ''CLM-2023-5500'']"
    by (simp add: submitted_state_eq matches_filters_def passes_def new_claim_row_simps)
  have d: "documents_of (db submitted_state)
             (new_claim_row example_env example_body ''CLM-2023-5500'')
           = [(1, ''receipt.pdf'', ''/srv/Uploads/documents-1686837600000-42.pdf'')]"
    by (simp add: submitted_state_eq documents_of_def new_claim_row_simps)
  from list_claims_filtered_sorted_enriched [of example_env "[''status'' \<mapsto> ''pending'']"
      submitted_state] nf ne m d
  show ?thesis
    by blast
qed

subsection \<open>Failures of the store during a submission\<close>

lemma cleanup_keeps_absent: "fs p = None \<Longrightarrow> cleanup e fl fs p = None"
  by (induction fl arbitrary: fs) (simp_all add: unlinkSync_def existsSync_def)

lemma cleanup_removes:
  "f \<in> set fl \<Longrightarrow> \<not> unlink_fault e (path f) \<Longrightarrow> cleanup e fl fs (path f) = None"
proof (induction fl arbitrary: fs)
  case Nil
  then show ?case by simp
next
  case (Cons g rest)
  show ?case
  proof (cases "path g = path f")
    case True
    with Cons.prems(2) show ?thesis
      by (simp add: cleanup_keeps_absent unlinkSync_def existsSync_def)
  next
    case False
    then have "f \<in> set rest"
      using Cons.prems(1) by auto
    then show ?thesis
      using Cons.IH Cons.prems(2) by simp
  qed
qed

lemma post_claims_catch_cleans:
  "f \<in> set fl \<Longrightarrow> \<not> unlink_fault e (path f) \<Longrightarrow>
   uploads (snd (post_claims_catch e err (Some fl) st)) (path f) = None"
  by (cases fl) (auto simp: post_claims_catch_def cleanup_removes simp del: cleanup.simps)

text \<open>
  Claim C5. Take a submission that passes validation, with the files \<open>fl\<close>, in which the
  store rejects a statement: the claim insert, or a document insert after the claim insert
  went through. The answer is the fixed 500 \<^verbatim>\<open>Server error while submitting claim\<close>, whatever
  the error \<open>err\<close> of the store was, and afterwards no file of the request is on disk, except
  those whose removal threw. (The earlier copy \<^verbatim>\<open>Backend/server.js\<close> gives the same answer
  and leaves the files.)
\<close>

theorem store_failure_removes_files:
  assumes "validation_error e body (Some fl) = None"
    and "insert_claim (db_fault e 0) (new_claim_row e body (new_claimId e)) (db st) = Inl err
         \<or> (\<exists>d1. insert_claim (db_fault e 0) (new_claim_row e body (new_claimId e)) (db st)
                    = Inr d1
                \<and> fst (insert_files e (uploads st) (new_claimId e) 0 fl d1) = Some err)"
  shows "fst (post_claims e st body (Some fl))
           = Json_error 500 ''Server error while submitting claim''
         \<and> (\<forall>f \<in> set fl. unlink_fault e (path f)
                \<or> uploads (snd (post_claims e st body (Some fl))) (path f) = None)"
proof -
  from assms(2) obtain st' where
    c: "post_claims e st body (Some fl) = post_claims_catch e err (Some fl) st'"
  proof
    assume "insert_claim (db_fault e 0) (new_claim_row e body (new_claimId e)) (db st) = Inl err"
    with assms(1) have "post_claims e st body (Some fl) = post_claims_catch e err (Some fl) st"
      by (simp add: post_claims_def)
    then show ?thesis by (rule that)
  next
    assume "\<exists>d1. insert_claim (db_fault e 0) (new_claim_row e body (new_claimId e)) (db st)
                    = Inr d1
                \<and> fst (insert_files e (uploads st) (new_claimId e) 0 fl d1) = Some err"
    then obtain d1 d2 where
      "insert_claim (db_fault e 0) (new_claim_row e body (new_claimId e)) (db st) = Inr d1"
      and "insert_files e (uploads st) (new_claimId e) 0 fl d1 = (Some err, d2)"
      by (metis prod.collapse)
    with assms(1)
    have "post_claims e st body (Some fl) = post_claims_catch e err (Some fl) (st\<lparr>db := d2\<rparr>)"
      by (simp add: post_claims_def)
    then show ?thesis by (rule that)
  qed
  have "fst (post_claims_catch e err (Some fl) st')
          = Json_error 500 ''Server error while submitting claim''"
    by (simp add: post_claims_catch_def)
  moreover have "\<forall>f \<in> set fl. unlink_fault e (path f)
                   \<or> uploads (snd (post_claims_catch e err (Some fl) st')) (path f) = None"
  proof
    fix f
    assume "f \<in> set fl"
    then show "unlink_fault e (path f)
                 \<or> uploads (snd (post_claims_catch e err (Some fl) st')) (path f) = None"
      using post_claims_catch_cleans [of f fl e err st'] by (cases "unlink_fault e (path f)") simp_all
  qed
  ultimately show ?thesis
    by (simp only: c)
qed

text \<open>
  The example submission when the store rejects the first document insert: the claim
  insert went through, the answer is the fixed 500, and the stored file is gone.
\<close>

theorem store_failure_removes_files_witness:
  "validation_error failing_env example_body (Some [example_file]) = None
   \<and> (\<exists>d1. insert_claim (db_fault failing_env 0)
               (new_claim_row failing_env example_body (new_claimId failing_env))
               (db uploaded_state) = Inr d1
          \<and> fst (insert_files failing_env (uploads uploaded_state) (new_claimId failing_env) 0
                   [example_file] d1) = Some ''Connection terminated unexpectedly'')
   \<and> uploads uploaded_state (path example_file) = Some ''%PDF''
   \<and> \<not> unlink_fault failing_env (path example_file)
   \<and> fst (post_claims failing_env uploaded_state example_body (Some [example_file]))
       = Json_error 500 ''Server error while submitting claim''
   \<and> uploads (snd (post_claims failing_env uploaded_state example_body (Some [example_file])))
        (path example_file) = None"
proof -
  have v: "validation_error failing_env example_body (Some [example_file]) = None"
    by (simp add: validation_error_def Let_def failing_env_def example_defs eval_defs)
  have i: "\<exists>d1. insert_claim (db_fault failing_env 0)
               (new_claim_row failing_env example_body (new_claimId failing_env))
               (db uploaded_state) = Inr d1
          \<and> fst (insert_files failing_env (uploads uploaded_state) (new_claimId failing_env) 0
                   [example_file] d1) = Some ''Connection terminated unexpectedly''"
    by (simp add: insert_claim_def insert_document_def existsSync_def failing_env_def
          uploaded_state_def empty_state_simps example_env_def new_claim_row_simps)
  have u: "uploads uploaded_state (path example_file) = Some ''%PDF''"
    by (simp add: uploaded_state_def example_file_simps)
  have n: "\<not> unlink_fault failing_env (path example_file)"
    by (simp add: failing_env_def example_env_def)
  from store_failure_removes_files [OF v, of uploaded_state "''Connection terminated unexpectedly''"]
    v i u n
  show ?thesis
    by auto
qed

subsection \<open>Fetching a document\<close>

lemma pg_strtoint32_1: "pg_strtoint32 ''1'' = Some 1"
  by (simp add: pg_strtoint32_def eval_defs)

lemma pg_strtoint32_2: "pg_strtoint32 ''2'' = Some 2"
  by (simp add: pg_strtoint32_def eval_defs)

lemma pg_strtoint32_abc: "pg_strtoint32 ''abc'' = None"
  by (simp add: pg_strtoint32_def eval_defs)

lemma pg_strtoint32_out_of_range: "pg_strtoint32 ''2147483648'' = None"
  by (simp add: pg_strtoint32_def eval_defs)

text \<open>
  Claim C6, as the code has it. Let the store answer the query. If the store reads the
  document id as the integer \<open>n\<close>: when no document row has the id \<open>n\<close>, the answer is 404
  \<^verbatim>\<open>Document not found\<close>; when the (first) row with that id names a path that is not on
  disk, the answer is 404 \<^verbatim>\<open>File not found on server\<close>; otherwise the file at that path
  is sent. If the store does not read the document id as an integer, it rejects the query
  and the answer is 500 \<^verbatim>\<open>Server error while fetching document\<close>. The state is unchanged
  in each case.
\<close>

theorem fetch_document_by_id:
  assumes "db_fault e 0 = None"
  shows "get_document e st documentId =
           (case int4in e documentId of
              None \<Rightarrow> (Json_error 500 ''Server error while fetching document'', st)
            | Some n \<Rightarrow>
                (case find (\<lambda>r. doc_id r = n) (documents (db st)) of
                   None \<Rightarrow> (Json_error 404 ''Document not found'', st)
                 | Some r \<Rightarrow>
                     (case uploads st (file_path r) of
                        None \<Rightarrow> (Json_error 404 ''File not found on server'', st)
                      | Some bytes \<Rightarrow> (Send_file (file_path r) bytes, st))))"
proof (cases "int4in e documentId")
  case None
  with assms show ?thesis
    by (simp add: get_document_def select_file_path_def)
next
  case conv: (Some n)
  show ?thesis
  proof (cases "find (\<lambda>r. doc_id r = n) (documents (db st))")
    case None
    then have "filter (\<lambda>r. doc_id r = n) (documents (db st)) = []"
      by (simp add: filter_empty_find)
    with assms conv None show ?thesis
      by (simp add: get_document_def select_file_path_def)
  next
    case (Some r)
    then have ne: "filter (\<lambda>r. doc_id r = n) (documents (db st)) \<noteq> []"
      by (simp add: filter_empty_find)
    have "hd (filter (\<lambda>r. doc_id r = n) (documents (db st))) = r"
      using Some by (rule hd_filter_find)
    then have "hd (map file_path (filter (\<lambda>r. doc_id r = n) (documents (db st)))) = file_path r"
      using ne by (simp add: hd_map)
    with assms conv Some ne show ?thesis
      by (auto simp: get_document_def select_file_path_def Let_def existsSync_def)
  qed
qed

text \<open>
  After the example submission: document 2 does not exist, document 1 is sent, and once
  its file has been removed from the upload directory document 1 is a 404, not a crash.
\<close>

theorem fetch_document_by_id_witness:
  "db_fault example_env 0 = None
   \<and> int4in example_env ''1'' = Some 1 \<and> int4in example_env ''2'' = Some 2
   \<and> get_document example_env submitted_state ''2''
       = (Json_error 404 ''Document not found'', submitted_state)
   \<and> get_document example_env submitted_state ''1''
       = (Send_file ''/srv/Uploads/documents-1686837600000-42.pdf'' ''%PDF'', submitted_state)
   \<and> get_document example_env (submitted_state\<lparr>uploads := Map.empty\<rparr>) ''1''
       = (Json_error 404 ''File not found on server'', submitted_state\<lparr>uploads := Map.empty\<rparr>)"
proof -
  have f: "db_fault example_env 0 = None"
    by (simp add: example_env_simps)
  have c: "int4in example_env ''1'' = Some 1" "int4in example_env ''2'' = Some 2"
    by (simp_all add: example_env_simps pg_strtoint32_1 pg_strtoint32_2)
  show ?thesis
    using f c
      fetch_document_by_id [OF f, of submitted_state "''2''"]
      fetch_document_by_id [OF f, of submitted_state "''1''"]
      fetch_document_by_id [OF f, of "submitted_state\<lparr>uploads := Map.empty\<rparr>" "''1''"]
    by (simp add: submitted_state_eq)
qed

text \<open>
  Claim C6 as the specification words it fails: not every call that names no document is
  answered not-found. After the example submission the only document has the id 1. The
  document ids \<^verbatim>\<open>abc\<close> and \<^verbatim>\<open>2147483648\<close> name no document row (the store reads neither as an
  integer of the column), and the answer to both is the 500 of the \<^verbatim>\<open>catch\<close> block, none
  of the three outcomes of the claim.
\<close>

theorem document_id_not_an_integer_is_server_error:
  "map doc_id (documents (db submitted_state)) = [1]
   \<and> int4in example_env ''abc'' = None
   \<and> int4in example_env ''2147483648'' = None
   \<and> get_document example_env submitted_state ''abc''
       = (Json_error 500 ''Server error while fetching document'', submitted_state)
   \<and> get_document example_env submitted_state ''2147483648''
       = (Json_error 500 ''Server error while fetching document'', submitted_state)"
  by (simp add: get_document_def select_file_path_def example_env_simps pg_strtoint32_abc
        pg_strtoint32_out_of_range submitted_state_eq)

subsection \<open>The claim date\<close>

lemma month_minus_three:
  fixes m :: int
  assumes "0 \<le> m" and "m \<le> 11"
  shows "(m - 3) div 12 = (if m < 3 then - 1 else 0)"
    and "0 \<le> (m - 3) mod 12" and "(m - 3) mod 12 \<le> 11"
    and "((m - 3) mod 12) div 12 = 0" and "((m - 3) mod 12) mod 12 = (m - 3) mod 12"
proof -
  show "(m - 3) div 12 = (if m < 3 then - 1 else 0)"
    using assms by presburger
  show "0 \<le> (m - 3) mod 12"
    by simp
  show "(m - 3) mod 12 \<le> 11"
    by presburger
  show "((m - 3) mod 12) div 12 = 0"
    by presburger
  show "((m - 3) mod 12) mod 12 = (m - 3) mod 12"
    by simp
qed

lemma MakeDay_three_months_before:
  assumes "0 \<le> month t" and "month t \<le> 11"
  shows "MakeDay (full_year (three_months_before t)) (month (three_months_before t)) dt
           = MakeDay (full_year t) (month t - 3) dt"
proof -
  have y: "full_year t + (month t - 3) div 12 = (if month t < 3 then full_year t - 1 else full_year t)"
    using month_minus_three(1) [OF assms] by simp
  show ?thesis
    using month_minus_three(4,5) [OF assms] y
    by (simp add: three_months_before_def MakeDay_def Let_def)
qed

text \<open>
  In a zone whose offset \<open>z\<close> does not change, the bound \<open>threeMonthsAgo\<close> of the handler is
  never before the calendar date three months back, and it is that date when the day of
  the month exists three months back.
\<close>

lemma threeMonthsAgo_not_before_calendar:
  assumes "0 \<le> month t" and "month t \<le> 11"
  shows "valueOf (\<lambda>l. z) (three_months_before t) \<le> valueOf (\<lambda>l. z) (setMonth t (getMonth t - 3))"
proof -
  have "MakeDay (full_year (three_months_before t)) (month (three_months_before t))
          (day_of_month (three_months_before t))
        \<le> MakeDay (full_year (three_months_before t)) (month (three_months_before t))
            (day_of_month t)"
    by (simp add: MakeDay_def Let_def three_months_before_def)
  also have "\<dots> = MakeDay (full_year t) (month t - 3) (day_of_month t)"
    using assms by (rule MakeDay_three_months_before)
  finally show ?thesis
    by (simp add: valueOf_def setMonth_def getMonth_def MakeDate_def msPerDay_def
          three_months_before_def Let_def)
qed

lemma threeMonthsAgo_is_calendar:
  assumes "0 \<le> month t" and "month t \<le> 11"
    and "day_of_month t
           \<le> DaysInMonth (full_year (three_months_before t)) (month (three_months_before t))"
  shows "valueOf tz (setMonth t (getMonth t - 3)) = valueOf tz (three_months_before t)"
proof -
  have "day_of_month (three_months_before t) = day_of_month t"
    using assms(3) by (simp add: three_months_before_def Let_def)
  then have "MakeDay (full_year (three_months_before t)) (month (three_months_before t))
          (day_of_month (three_months_before t))
        = MakeDay (full_year t) (month t - 3) (day_of_month t)"
    using MakeDay_three_months_before [OF assms(1,2)] by simp
  then show ?thesis
    by (simp add: valueOf_def setMonth_def getMonth_def three_months_before_def Let_def)
qed

text \<open>
  A date after the reading \<open>today\<close>, or before the calendar date three months before it, is
  refused (both readings of the clock being \<open>t\<close>).
\<close>

lemma claim_date_out_of_window_rejected:
  assumes "clock e 0 = t" and "clock e 1 = t" and "0 \<le> month t" and "month t \<le> 11"
    and "body ''claimDate'' = Some s" and "Date_parse e s = Some c"
    and "tz_offset e = (\<lambda>l. z)"
    and "valueOf (tz_offset e) t < c \<or> c < valueOf (tz_offset e) (three_months_before t)"
  shows "validation_error e body req_files \<noteq> None"
proof -
  have "valueOf (tz_offset e) (clock e 0) < c
          \<or> c < valueOf (tz_offset e) (setMonth (clock e 1) (getMonth (clock e 0) - 3))"
    using assms(8) threeMonthsAgo_not_before_calendar [OF assms(3,4), of z]
    unfolding assms(1,2,7) by linarith
  with assms(5,6) show ?thesis
    by (rule validation_error_claimDate)
qed

text \<open>Three months back is at least 89 days back.\<close>

lemma div_succ:
  fixes a k :: int
  assumes "0 < k"
  shows "(a + 1) div k = a div k + (if (a + 1) mod k = 0 then 1 else 0)"
proof (cases "a mod k = k - 1")
  case True
  have "k * (a div k) + a mod k = a"
    by simp
  with True have "a + 1 = k * (a div k) + k"
    by linarith
  then have e: "a + 1 = k * (a div k + 1) + 0"
    by (simp add: algebra_simps)
  have "(a + 1) div k = a div k + 1"
    by (rule int_div_pos_eq [OF e]) (use assms in simp_all)
  moreover have "(a + 1) mod k = 0"
    by (rule int_mod_pos_eq [OF e]) (use assms in simp_all)
  ultimately show ?thesis
    by simp
next
  case False
  have "0 \<le> a mod k" and "a mod k < k"
    using assms by simp_all
  with False have r: "0 \<le> a mod k + 1" "a mod k + 1 < k"
    by linarith+
  have e: "a + 1 = k * (a div k) + (a mod k + 1)"
    by simp
  have "(a + 1) div k = a div k"
    by (rule int_div_pos_eq [OF e r])
  moreover have "(a + 1) mod k = a mod k + 1"
    by (rule int_mod_pos_eq [OF e r])
  ultimately show ?thesis
    using \<open>0 \<le> a mod k\<close> by simp
qed

lemma mod_shift:
  fixes y :: int
  shows "(y - 1968) mod 4 = y mod 4" and "(y - 1900) mod 100 = y mod 100"
    and "(y - 1600) mod 400 = y mod 400"
proof -
  have "y - 1968 = y + 4 * (- 492)" "y - 1900 = y + 100 * (- 19)" "y - 1600 = y + 400 * (- 4)"
    by simp_all
  then show "(y - 1968) mod 4 = y mod 4" and "(y - 1900) mod 100 = y mod 100"
    and "(y - 1600) mod 400 = y mod 400"
    by (simp_all only: mod_mult_self2)
qed

lemma DayFromYear_next:
  "DayFromYear (y + 1) = DayFromYear y + (if InLeapYear y then 366 else 365)"
proof -
  have s4: "(y - 1968) div 4 = (y - 1969) div 4 + (if y mod 4 = 0 then 1 else 0)"
    using div_succ [of 4 "y - 1969"] mod_shift(1) [of y] by simp
  have s100: "(y - 1900) div 100 = (y - 1901) div 100 + (if y mod 100 = 0 then 1 else 0)"
    using div_succ [of 100 "y - 1901"] mod_shift(2) [of y] by simp
  have s400: "(y - 1600) div 400 = (y - 1601) div 400 + (if y mod 400 = 0 then 1 else 0)"
    using div_succ [of 400 "y - 1601"] mod_shift(3) [of y] by simp
  have c400: "(100::int) dvd 400" and c100: "(4::int) dvd 100"
    by simp_all
  have d100: "y mod 100 = 0" if "y mod 400 = 0"
  proof -
    from that have "400 dvd y"
      by (simp add: mod_eq_0_iff_dvd)
    with c400 have "100 dvd y"
      by (rule dvd_trans)
    then show ?thesis
      by (simp add: mod_eq_0_iff_dvd)
  qed
  have d4: "y mod 4 = 0" if "y mod 100 = 0"
  proof -
    from that have "100 dvd y"
      by (simp add: mod_eq_0_iff_dvd)
    with c100 have "4 dvd y"
      by (rule dvd_trans)
    then show ?thesis
      by (simp add: mod_eq_0_iff_dvd)
  qed
  have e: "DayFromYear (y + 1)
          = 365 * (y - 1969) + (y - 1968) div 4 - (y - 1900) div 100 + (y - 1600) div 400"
    by (simp add: DayFromYear_def)
  show ?thesis
  proof (cases "y mod 400 = 0")
    case True
    with d100 d4 show ?thesis
      by (simp add: e s4 s100 s400 DayFromYear_def InLeapYear_def)
  next
    case n400: False
    show ?thesis
    proof (cases "y mod 100 = 0")
      case True
      with n400 d4 show ?thesis
        by (simp add: e s4 s100 s400 DayFromYear_def InLeapYear_def)
    next
      case False
      with n400 show ?thesis
        by (simp add: e s4 s100 s400 DayFromYear_def InLeapYear_def)
    qed
  qed
qed

lemma MakeDay_three_months_earlier:
  assumes "0 \<le> m" and "m \<le> 11"
  shows "MakeDay y (m - 3) d + 89 \<le> MakeDay y m d"
proof -
  have next_year: "DayFromYear y = DayFromYear (y - 1) + (if InLeapYear (y - 1) then 366 else 365)"
    using DayFromYear_next [of "y - 1"] by simp
  have "m = 0 \<or> m = 1 \<or> m = 2 \<or> m = 3 \<or> m = 4 \<or> m = 5 \<or> m = 6 \<or> m = 7
          \<or> m = 8 \<or> m = 9 \<or> m = 10 \<or> m = 11"
    using assms by arith
  then show ?thesis
    by (elim disjE) (simp_all add: MakeDay_def month_start_def next_year)
qed

lemma validation_error_claimDate_swap:
  assumes "validation_error e (body(''claimDate'' \<mapsto> s0)) req_files = None"
    and "s \<noteq> []" and "Date_parse e s = Some c"
  shows "(validation_error e (body(''claimDate'' \<mapsto> s)) req_files = None)
           = (c \<le> valueOf (tz_offset e) (clock e 0)
              \<and> valueOf (tz_offset e) (setMonth (clock e 1) (getMonth (clock e 0) - 3)) \<le> c)"
  using assms
  by (auto simp: validation_error_def Let_def truthy_Some date_gt_def date_lt_def
        split: if_splits)

text \<open>
  Where the claim holds. With a server at or east of UTC in a zone whose offset \<open>z\<close> does
  not change, at a time of day when the UTC date is the local date, a submission that is
  valid otherwise passes with today's date, and with the day after the calendar date three
  months back, provided that date has the same day of the month (no month-end overflow).
  The claim date is a non-empty string that the engine reads as midnight UTC of the day.
\<close>

lemma today_accepted:
  assumes "validation_error e (body(''claimDate'' \<mapsto> s0)) req_files = None"
    and "clock e 0 = t" and "clock e 1 = t" and "0 \<le> month t" and "month t \<le> 11"
    and "0 \<le> ms_in_day t" and "ms_in_day t < msPerDay"
    and "tz_offset e = (\<lambda>l. z)" and "0 \<le> z" and "z \<le> ms_in_day t" and "s \<noteq> []"
    and "Date_parse e s = Some (MakeDate (MakeDay (full_year t) (month t) (day_of_month t)) 0)"
  shows "validation_error e (body(''claimDate'' \<mapsto> s)) req_files = None"
proof -
  have "MakeDay (full_year t) (month t - 3) (day_of_month t) + 89
          \<le> MakeDay (full_year t) (month t) (day_of_month t)"
    using assms(4,5) by (rule MakeDay_three_months_earlier)
  then show ?thesis
    using assms(6,7,9,10)
    unfolding validation_error_claimDate_swap [OF assms(1) assms(11) assms(12)] assms(2,3,8)
    by (simp add: valueOf_def setMonth_def getMonth_def MakeDate_def msPerDay_def)
qed

lemma day_after_three_months_back_accepted:
  assumes "validation_error e (body(''claimDate'' \<mapsto> s0)) req_files = None"
    and "clock e 0 = t" and "clock e 1 = t" and "0 \<le> month t" and "month t \<le> 11"
    and "0 \<le> ms_in_day t" and "ms_in_day t < msPerDay"
    and "tz_offset e = (\<lambda>l. z)" and "0 \<le> z" and "z \<le> ms_in_day t" and "s \<noteq> []"
    and "day_of_month t
           \<le> DaysInMonth (full_year (three_months_before t)) (month (three_months_before t))"
    and "Date_parse e s
           = Some (MakeDate (MakeDay (full_year (three_months_before t))
                               (month (three_months_before t))
                               (day_of_month (three_months_before t)) + 1) 0)"
  shows "validation_error e (body(''claimDate'' \<mapsto> s)) req_files = None"
proof -
  have "day_of_month (three_months_before t) = day_of_month t"
    using assms(12) by (simp add: three_months_before_def Let_def)
  then have d: "MakeDay (full_year (three_months_before t)) (month (three_months_before t))
          (day_of_month (three_months_before t))
        = MakeDay (full_year t) (month t - 3) (day_of_month t)"
    using MakeDay_three_months_before [OF assms(4,5)] by simp
  have "MakeDay (full_year t) (month t - 3) (day_of_month t) + 89
          \<le> MakeDay (full_year t) (month t) (day_of_month t)"
    using assms(4,5) by (rule MakeDay_three_months_earlier)
  then show ?thesis
    using assms(6,7,9,10)
    unfolding validation_error_claimDate_swap [OF assms(1) assms(11) assms(13)] assms(2,3,8) d
    by (simp add: valueOf_def setMonth_def getMonth_def MakeDate_def msPerDay_def)
qed

text \<open>
  Claim C7 fails on the code at the end of a month. At noon UTC on 31 May 2023 the date
  1 March 2023 is three months minus one day back (1 March plus three months is 1 June,
  the day after 31 May). \<^verbatim>\<open>setMonth(4 - 3)\<close> makes \<open>threeMonthsAgo\<close> the 31st of February,
  which is 3 March, noon; 1 March is before it and the submission is refused, with the
  message that the date must be within the last 3 months.
\<close>

theorem month_end_rejects_date_within_three_months:
  "MakeDay 2023 (2 + 3) 1 = MakeDay (full_year may31) (month may31) (day_of_month may31) + 1
   \<and> Date_parse may31_env ''2023-03-01'' = Some (MakeDate (MakeDay 2023 2 1) 0)
   \<and> valueOf (tz_offset may31_env) (setMonth may31 (getMonth may31 - 3))
       = MakeDate (MakeDay 2023 2 3) 43200000
   \<and> valueOf (tz_offset may31_env) (three_months_before may31)
       = MakeDate (MakeDay 2023 1 28) 43200000
   \<and> POST_api_claims may31_env empty_state (example_body(''claimDate'' \<mapsto> ''2023-03-01''))
        [example_file]
      = (Json_error 400 ''Claim date must be within the last 3 months and not in the future'',
         uploaded_state)"
proof -
  have v: "validation_error may31_env (example_body(''claimDate'' \<mapsto> ''2023-03-01''))
             (Some [example_file])
           = Some ''Claim date must be within the last 3 months and not in the future''"
    by (simp add: validation_error_def Let_def may31_env_def may31_def example_defs eval_defs)
  have p: "POST_api_claims may31_env empty_state (example_body(''claimDate'' \<mapsto> ''2023-03-01''))
        [example_file]
      = (Json_error 400 ''Claim date must be within the last 3 months and not in the future'',
         uploaded_state)"
    by (simp add: POST_api_claims_def empty_state_simps example_file_simps fileFilter_def
          allowedTypes_def post_claims_validation [OF v] uploaded_state_def)
  have d: "MakeDay 2023 (2 + 3) 1
             = MakeDay (full_year may31) (month may31) (day_of_month may31) + 1"
    "Date_parse may31_env ''2023-03-01'' = Some (MakeDate (MakeDay 2023 2 1) 0)"
    "valueOf (tz_offset may31_env) (setMonth may31 (getMonth may31 - 3))
       = MakeDate (MakeDay 2023 2 3) 43200000"
    "valueOf (tz_offset may31_env) (three_months_before may31)
       = MakeDate (MakeDay 2023 1 28) 43200000"
    by (simp_all add: may31_env_def example_env_def may31_def three_months_before_def Let_def
          eval_defs)
  from d p show ?thesis
    by simp
qed

subsection \<open>The amount\<close>







text \<open>
  The comparison is made on the value read, not on the decimal numeral: a numeral above
  50000 by less than half a unit in the last place is read as 50000 and passes, and a
  positive numeral below the smallest binary64 value is read as 0 and fails.
\<close>

lemma parseFloat_just_above_50000: "parseFloat ''50000.000000000001'' = Num 50000"
proof -
  have "parseFloat ''50000.000000000001'' = decimal64 50000000000000001 (- 12)"
    by (simp add: parse_defs)
  also have "\<dots> = Num 50000"
    by (simp add: round_defs)
  finally show ?thesis .
qed

lemma amount_compared_as_binary64:
  "amount_in_range ''50000.000000000001'' \<and> \<not> amount_in_range ''1e-400''"
  by (simp add: amount_in_range_def parseFloat_just_above_50000 parseFloat_1e_400)



subsection \<open>Employee ids\<close>

text \<open>
  Claim C9, as amended. For every string \<open>s\<close> that does not match \<^verbatim>\<open>ATS0[1-9]\d{2}\<close>: a
  submission whose \<^verbatim>\<open>empId\<close> is \<open>s\<close> is answered with a 400 error and leaves the tables as
  they were (whatever else the request holds), and a listing whose \<^verbatim>\<open>employee_id\<close> filter is
  \<open>s\<close> is answered with the 400 error of the employee id check, provided \<open>s\<close> is not empty.
\<close>

theorem employee_id_must_match:
  "\<not> test_empId s \<Longrightarrow>
     (body ''empId'' = Some s \<longrightarrow>
        (\<exists>msg. fst (POST_api_claims e st body parts) = Json_error 400 msg
           \<and> db (snd (POST_api_claims e st body parts)) = db st))
     \<and> (s \<noteq> [] \<and> query ''employee_id'' = Some s \<longrightarrow>
          get_claims e st query
            = (Json_error 400 ''Employee ID must be ATS0 followed by 3 digits'', st))"
proof (intro conjI impI)
  assume bad: "\<not> test_empId s" and b: "body ''empId'' = Some s"
  then have "validation_error e body (Some parts) \<noteq> None"
    by (rule validation_error_empId [rotated])
  then obtain m where "validation_error e body (Some parts) = Some m" by auto
  then show "\<exists>msg. fst (POST_api_claims e st body parts) = Json_error 400 msg
           \<and> db (snd (POST_api_claims e st body parts)) = db st"
    by (rule route_rejected_by_validation)
next
  assume bad: "\<not> test_empId s" and q: "s \<noteq> [] \<and> query ''employee_id'' = Some s"
  then show "get_claims e st query
            = (Json_error 400 ''Employee ID must be ATS0 followed by 3 digits'', st)"
    by (simp add: get_claims_def truthy_def)
qed

text \<open>The theorem at the id \<^verbatim>\<open>ATS0023\<close>, whose first digit is 0.\<close>

theorem employee_id_must_match_witness:
  "\<not> test_empId ''ATS0023''
   \<and> (\<exists>msg. fst (POST_api_claims example_env empty_state
                   (example_body(''empId'' \<mapsto> ''ATS0023'')) [example_file])
          = Json_error 400 msg)
   \<and> get_claims example_env empty_state [''employee_id'' \<mapsto> ''ATS0023'']
       = (Json_error 400 ''Employee ID must be ATS0 followed by 3 digits'', empty_state)"
proof -
  have bad: "\<not> test_empId ''ATS0023''"
    by (simp add: test_empId_def)
  from employee_id_must_match [OF bad, of "example_body(''empId'' \<mapsto> ''ATS0023'')"
      example_env empty_state "[example_file]" "[''employee_id'' \<mapsto> ''ATS0023'']"]
  show ?thesis using bad by auto
qed

text \<open>
  Claim C9 as stated fails at the empty string: it does not match the pattern, and a
  listing with \<^verbatim>\<open>employee_id=\<close> skips the filter (\<^verbatim>\<open>if (employee_id)\<close>) and answers 200 with
  every claim of the store.
\<close>

theorem empty_employee_id_lists_all:
  "\<not> test_empId ''''
   \<and> get_claims example_env submitted_state [''employee_id'' \<mapsto> '''']
       = (Json_claims
            [(new_claim_row example_env example_body ''CLM-2023-5500'',
              [(1, ''receipt.pdf'', ''/srv/Uploads/documents-1686837600000-42.pdf'')])],
          submitted_state)
   \<and> employee_id (new_claim_row example_env example_body ''CLM-2023-5500'') = ''ATS0123''"
  by (simp add: test_empId_def get_claims_def truthy_def where_clause_def select_claims_def
        holds_def select_documents_def submitted_state_eq example_env_simps example_row)

subsection \<open>The cap on the number of files\<close>

text \<open>
  Claim C10. A submission that carries more than 5 files is refused by the upload
  middleware \<^verbatim>\<open>upload.array('documents', 5)\<close>: the answer is a 400 error, the handler does
  not run, and the tables are as before. (The earlier copy \<^verbatim>\<open>Backend/server.js\<close> has no
  \<^verbatim>\<open>MulterError\<close> branch in its error handler and answers 500; it writes no row either.)
\<close>

theorem more_than_five_files_rejected:
  "5 < length parts \<Longrightarrow>
   \<exists>msg. fst (POST_api_claims e st body parts) = Json_error 400 msg
     \<and> db (snd (POST_api_claims e st body parts)) = db st"
proof -
  assume "5 < length parts"
  then obtain err fs where "upload_array 5 [] parts (uploads st) = Inl (err, fs)"
    using upload_array_over_count by blast
  then show ?thesis
    by (rule route_rejected_by_upload)
qed

text \<open>Six copies of the example file with an otherwise valid submission.\<close>

theorem more_than_five_files_rejected_witness:
  "5 < length (replicate 6 example_file)
   \<and> (\<exists>msg. fst (POST_api_claims example_env empty_state example_body (replicate 6 example_file))
              = Json_error 400 msg
          \<and> db (snd (POST_api_claims example_env empty_state example_body
                    (replicate 6 example_file))) = db empty_state)"
proof -
  have n: "5 < length (replicate 6 example_file)"
    by simp
  from more_than_five_files_rejected [OF n, of example_env empty_state example_body] n
  show ?thesis by simp
qed

subsection \<open>Where the earlier copy differs\<close>

text \<open>
  In \<^verbatim>\<open>Backend/server.js\<close> a rejected statement gives the same fixed 500, and the upload
  directory is left as it was: the files of the request stay on disk.
\<close>

lemma v1_store_failure_keeps_files:
  assumes "validation_error e body (Some fl) = None"
    and "insert_claim (db_fault e 0) (new_claim_row e body (new_claimId e)) (db st) = Inl err
         \<or> (\<exists>d1. insert_claim (db_fault e 0) (new_claim_row e body (new_claimId e)) (db st)
                    = Inr d1
                \<and> fst (insert_files_v1 e (new_claimId e) 0 fl d1) = Some err)"
  shows "fst (post_claims_v1 e st body (Some fl))
           = Json_error 500 ''Server error while submitting claim''
         \<and> uploads (snd (post_claims_v1 e st body (Some fl))) = uploads st"
  using assms(2)
proof
  assume "insert_claim (db_fault e 0) (new_claim_row e body (new_claimId e)) (db st) = Inl err"
  with assms(1) show ?thesis
    by (simp add: post_claims_v1_def)
next
  assume "\<exists>d1. insert_claim (db_fault e 0) (new_claim_row e body (new_claimId e)) (db st)
                    = Inr d1
                \<and> fst (insert_files_v1 e (new_claimId e) 0 fl d1) = Some err"
  then obtain d1 d2 where
    "insert_claim (db_fault e 0) (new_claim_row e body (new_claimId e)) (db st) = Inr d1"
    and "insert_files_v1 e (new_claimId e) 0 fl d1 = (Some err, d2)"
    by (metis prod.collapse)
  with assms(1) show ?thesis
    by (simp add: post_claims_v1_def)
qed

text \<open>More than 5 files: refused there too, with the 500 of the last branch.\<close>

lemma v1_error_handler_unexpected_file:
  "error_handler_v1 (MulterError ''LIMIT_UNEXPECTED_FILE'' ''Unexpected field'')
     = Json_error 500 ''Internal server error''"
  by (simp add: error_handler_v1_def)

lemma v1_more_than_five_files_rejected:
  assumes "5 < length parts"
  shows "\<exists>n msg. fst (POST_api_claims_v1 e st body parts) = Json_error n msg
           \<and> db (snd (POST_api_claims_v1 e st body parts)) = db st"
proof -
  from assms obtain err fs where "upload_array 5 [] parts (uploads st) = Inl (err, fs)"
    using upload_array_over_count by blast
  then show ?thesis
    by (simp add: POST_api_claims_v1_def error_handler_v1_def)
qed

text \<open>The listing there: the matching rows, newest first, without documents.\<close>

lemma v1_list_claims:
  assumes "db_fault e 0 = None"
    and "\<not> truthy (query ''employee_id'') \<or> test_empId (the (query ''employee_id''))"
  shows "get_claims_v1 e st query
           = (Json_rows (sort_key (\<lambda>r. - created_at r)
                           (filter (matches_filters query) (claims (db st)))), st)"
  using assms
  by (auto simp: get_claims_v1_def select_claims_def holds_where_clause [abs_def])

end
